theory Spec2Isabelle
  imports Main "HOL-Library.Word"
begin

section \<open>Shared vocabulary\<close>

text \<open>
  Every exception of the two TypeScript modules is a plain \<open>Error\<close> carrying a message.
  A call that may throw returns \<open>error + 'a\<close>, with \<open>Inl\<close> for the thrown error.
  A \<open>Byte\<close> of the SDK is an 8-bit word.
\<close>

datatype error = Error (message: string)

type_synonym byte = "8 word"

text \<open>
  The console. \<open>ConsoleError\<close> is one call of \<open>console.error\<close>: its label and its
  second argument (an error, the \<open>stack\<close> or the constructor name of an error, or a
  number). \<open>ConsoleLog\<close> is one call of \<open>console.log\<close> on an object with one member:
  the name of the member and its value. The certificate route prints request data with
  \<open>console.log\<close>, and both of its calls are kept. The \<open>console.log\<close> calls of the
  registry print progress messages and are left out.
\<close>

datatype log_arg =
    ErrorArg error | StackArg error | TypeArg error | NumberArg nat
  | NonceArg "string option" | FieldsArg "(string \<times> string) list"

datatype log_entry = ConsoleError string "log_arg option" | ConsoleLog string log_arg

section \<open>Certificate issuer (back/src/routes/signCertificate.ts)\<close>

subsection \<open>Data\<close>

text \<open>
  The body of the request, with the member types the route declares. Any member may be
  absent from the JSON object. \<open>identityKey\<close> is \<open>req.auth.identityKey\<close>, set by the
  authentication layer in front of the route.
\<close>

record sign_request =
  clientNonce :: "string option"
  req_type :: "string option"
  req_fields :: "(string \<times> string) list option"
  masterKeyring :: "(string \<times> string) list option"
  identityKey :: string

text \<open>The members of the SDK's \<open>Certificate\<close> object, in constructor order, and its signature.\<close>

record certificate =
  cert_type :: string
  serialNumber :: string
  subject :: string
  certifier :: string
  revocationOutpoint :: string
  cert_fields :: "(string \<times> string) list"
  signature :: "string option"

record hmac_args =
  hmac_data :: "byte list"
  hmac_protocolID :: "nat \<times> string"
  hmac_keyID :: string
  hmac_counterparty :: string

text \<open>
  The collaborators of the route: the wallet attached to the request and the SDK
  functions. None of them is code of this repository, so each is a parameter.
  \<open>verifyNonce\<close> resolves to a boolean or throws; \<open>cert_sign\<close> is
  \<open>Certificate.sign\<close>, which computes the signature over the certificate and stores it
  in the \<open>signature\<close> member.
\<close>

record certifier_env =
  verifyNonce :: "string \<Rightarrow> string \<Rightarrow> error + bool"
  createNonce :: "string \<Rightarrow> error + string"
  toArray_base64 :: "string \<Rightarrow> byte list"
  createHmac :: "hmac_args \<Rightarrow> error + byte list"
  toBase64 :: "byte list \<Rightarrow> string"
  decryptFields :: "(string \<times> string) list \<Rightarrow> (string \<times> string) list \<Rightarrow> string
                      \<Rightarrow> error + (string \<times> string) list"
  getPublicKey_identity :: "error + string"
  cert_sign :: "certificate \<Rightarrow> error + string"

datatype response_body =
    ErrorBody (err_status: string) (err_code: "string option") (err_description: string)
  | CertificateBody (body_certificate: certificate) (body_serverNonce: string)

datatype response = Response (http_status: nat) (http_body: response_body)

subsection \<open>certifierSignCheckArgs\<close>

text \<open>\<open>!x\<close> on an optional string: true when the member is absent or the empty string.\<close>

definition falsy_string :: "string option \<Rightarrow> bool" where
  "falsy_string v = (case v of None \<Rightarrow> True | Some s \<Rightarrow> s = [])"

text \<open>The helper returns normally (\<open>None\<close>) or throws the error of the first failed check.\<close>

definition certifierSignCheckArgs :: "sign_request \<Rightarrow> error option" where
  "certifierSignCheckArgs args =
     (if falsy_string (clientNonce args) then Some (Error ''Missing client nonce!'')
      else if falsy_string (req_type args) then Some (Error ''Missing certificate type!'')
      else if req_fields args = None then Some (Error ''Missing certificate fields to sign!'')
      else if masterKeyring args = None then Some (Error ''Missing masterKeyring to decrypt fields!'')
      else None)"

subsection \<open>signCertificate\<close>

definition revocationTxid :: string where
  "revocationTxid = replicate 64 CHR ''0''"

text \<open>
  The statements of the outer \<open>try\<close> block after the validation, for the four members
  already known to be present: the outcome and what \<open>console.log\<close> has printed by then.
  The value returned by \<open>verifyNonce\<close> is awaited and not inspected. The decrypted
  fields are printed with \<open>console.log({ decryptedFields })\<close> and not read again.
\<close>

definition issue :: "certifier_env \<Rightarrow> string \<Rightarrow> string \<Rightarrow> (string \<times> string) list
    \<Rightarrow> (string \<times> string) list \<Rightarrow> string
    \<Rightarrow> (error + certificate \<times> string) \<times> log_entry list" where
  "issue env cn ty fs keyring idKey =
     (case verifyNonce env cn idKey of Inl e \<Rightarrow> (Inl e, []) | Inr _ \<Rightarrow>
     (case createNonce env idKey of Inl e \<Rightarrow> (Inl e, []) | Inr serverNonce \<Rightarrow>
     (case createHmac env
             \<lparr>hmac_data = toArray_base64 env (cn @ serverNonce),
              hmac_protocolID = (2, ''certificate issuance''),
              hmac_keyID = serverNonce @ cn,
              hmac_counterparty = idKey\<rparr> of Inl e \<Rightarrow> (Inl e, []) | Inr hmac \<Rightarrow>
     (let serial = toBase64 env hmac in
     (case decryptFields env keyring fs idKey of Inl e \<Rightarrow> (Inl e, []) | Inr decryptedFields \<Rightarrow>
     (let printed = [ConsoleLog ''decryptedFields'' (FieldsArg decryptedFields)] in
     (case getPublicKey_identity env of Inl e \<Rightarrow> (Inl e, printed) | Inr publicKey \<Rightarrow>
     (let signedCertificate =
            \<lparr>cert_type = ty, serialNumber = serial, subject = idKey, certifier = publicKey,
             revocationOutpoint = revocationTxid @ ''.0'', cert_fields = fs, signature = None\<rparr> in
     (case cert_sign env signedCertificate of Inl e \<Rightarrow> (Inl e, printed) | Inr sig \<Rightarrow>
        (Inr (signedCertificate\<lparr>signature := Some sig\<rparr>, serverNonce), printed))))))))))"

definition internal_error :: response where
  "internal_error =
     Response 500 (ErrorBody ''error'' (Some ''ERR_INTERNAL'') ''An internal error has occurred.'')"

text \<open>
  The route handler: the response sent and the console output, which starts with
  \<open>console.log({ clientNonce })\<close> and, after an error, ends with \<open>console.error(e)\<close>.
  The last branch of the inner case is excluded by the validation before it.
\<close>

definition signCertificate :: "certifier_env \<Rightarrow> sign_request \<Rightarrow> response \<times> log_entry list" where
  "signCertificate env req =
     (let printed = [ConsoleLog ''clientNonce'' (NonceArg (clientNonce req))] in
      case certifierSignCheckArgs req of
        Some err \<Rightarrow> (Response 400 (ErrorBody ''error'' None (message err)), printed)
      | None \<Rightarrow>
          (case (clientNonce req, req_type req, req_fields req, masterKeyring req) of
             (Some cn, Some ty, Some fs, Some keyring) \<Rightarrow>
               (case issue env cn ty fs keyring (identityKey req) of
                  (Inl e, out) \<Rightarrow>
                    (internal_error, printed @ out @ [ConsoleError [] (Some (ErrorArg e))])
                | (Inr (cert, serverNonce), out) \<Rightarrow>
                    (Response 200 (CertificateBody cert serverNonce), printed @ out))
           | _ \<Rightarrow> (internal_error, printed)))"

section \<open>DID registry (class BsvOverlayRegistry)\<close>

subsection \<open>Strings\<close>

text \<open>\<open>s.split(':')\<close>: the segments between the colons, at least one.\<close>

fun split_colon :: "string \<Rightarrow> string list" where
  "split_colon [] = [[]]"
| "split_colon (c # cs) =
     (if c = CHR '':'' then [] # split_colon cs
      else (case split_colon cs of p # ps \<Rightarrow> (c # p) # ps | [] \<Rightarrow> [[c]]))"

text \<open>The \<open>TypeError\<close> of reading a property of \<open>null\<close> or \<open>undefined\<close>.\<close>

definition type_error :: "string \<Rightarrow> string \<Rightarrow> error" where
  "type_error receiver property =
     Error (''Cannot read properties of '' @ receiver @ '' (reading '' @ [CHR 0x27] @ property
            @ [CHR 0x27] @ '')'')"

text \<open>A non-negative integer inside a template literal: its decimal digits.\<close>

definition digit_char :: "nat \<Rightarrow> char" where
  "digit_char n = ''0123456789abcdef'' ! (n mod 16)"

function show_nat :: "nat \<Rightarrow> string" where
  "show_nat n = (if n < 10 then [digit_char n] else show_nat (n div 10) @ [digit_char (n mod 10)])"
  by pat_completeness auto
termination
  by (relation "measure id") auto

text \<open>
  Modelled from the spec: \<open>Utils.toHex\<close> of the SDK, the hex encoding of a byte array
  (\<open>hex(serialNumber)\<close>), two lower-case digits for each byte.
\<close>

definition toHex :: "byte list \<Rightarrow> string" where
  "toHex bs = concat (map (\<lambda>b. [digit_char (unat b div 16), digit_char (unat b mod 16)]) bs)"

definition is_hex_char :: "char \<Rightarrow> bool" where
  "is_hex_char c = (c \<in> set ''0123456789abcdef'')"

subsection \<open>Data\<close>

datatype jwk = JWK (kty: string) (crv: string) (jwk_x: string) (jwk_y: string)

record verification_method =
  vm_id :: string
  vm_type :: string
  vm_controller :: string
  publicKeyJwk :: jwk

datatype method_ref = MethodId string | MethodObject verification_method

text \<open>
  A \<open>DIDDocument\<close>: the members the registry reads or writes, and \<open>doc_other\<close> for
  every further member, which the object spread copies unchanged.
\<close>

record did_document =
  doc_id :: string
  doc_context :: "string list option"
  verificationMethod :: "verification_method list"
  authentication :: "method_ref list"
  assertionMethod :: "method_ref list"
  keyAgreement :: "method_ref list"
  capabilityDelegation :: "method_ref list"
  capabilityInvocation :: "method_ref list"
  doc_other :: "(string \<times> string) list"

datatype json =
    JNull | JBool bool | JNumber int | JString string
  | JArray "json list" | JObject "(string \<times> json) list"

record create_options =
  didDocument :: did_document
  publicKeyJWK :: "jwk option"
  keyId :: "string option"

record lock_args =
  lock_fields :: "byte list list"
  protocolID :: "nat \<times> string"
  keyID :: string
  counterparty :: string
  includeSignature :: bool
  lockPosition :: string
  forSelf :: bool

text \<open>The object serialised into \<open>customInstructions\<close> of an output.\<close>

datatype instructions =
    PushDropInstructions lock_args did_document
  | KeyDerivation (purpose: string) (kd_counterparty: string)

record action_input =
  outpoint :: string
  inputDescription :: string

record action_output =
  lockingScript :: string
  satoshis :: nat
  outputDescription :: string
  basket :: "string option"
  customInstructions :: "instructions option"

record create_action_args =
  description :: string
  inputs :: "action_input list"
  outputs :: "action_output list"
  randomizeOutputs :: "bool option"
  labels :: "string list"

record create_action_result =
  car_txid :: string
  car_tx :: "byte list"

text \<open>A document of the collection \<open>did_lookups\<close>; a stored document may lack members.\<close>

record lookup_record =
  lr_serialNumber :: string
  lr_txid :: "string option"
  lr_vout :: "nat option"
  lr_topic :: string
  lr_didDocument :: "did_document option"
  lr_createdAt :: nat

record lookup_query =
  service :: string
  q_serialNumber :: string
  q_outpoint :: string

text \<open>
  The response of the overlay lookup. \<open>json_body\<close> is what \<open>response.json()\<close>
  gives: any JSON value, or the error of a body that is not JSON.
\<close>

record http_response =
  ok :: bool
  status :: nat
  json_body :: "error + json"

datatype script_chunk = OpCode nat | Bin "byte list"

text \<open>
  What \<open>resolveDID\<close> resolves to when it is not \<open>null\<close>: the document cached in the
  index, a value taken from the overlay answer, or \<open>undefined\<close>.
\<close>

datatype resolved = Document did_document | Decoded json | Undefined

record create_result =
  cr_did :: string
  cr_car :: create_action_result
  cr_didDocument :: did_document

record update_result =
  ur_did :: string
  ur_txid :: string

text \<open>
  The collaborators of the registry during one call: the wallet set-up steps, the SDK and
  the wallet, the database driver, the network and the JavaScript built-ins, with the
  values that \<open>Date.now()\<close>, \<open>Math.random()\<close> and \<open>new Date()\<close> deliver.
  \<open>insertOne_error\<close> tells whether the write of a record fails, \<open>findOne_error\<close>
  whether the query for a serial number does. \<open>compare_positive v\<close> is the JavaScript
  comparison \<open>v > 0\<close> for a JSON value that is not a number. \<open>parseInt\<close> yields
  a JavaScript number, of type \<open>'n\<close>, and \<open>number_string\<close> is its conversion to a string.
\<close>

record 'n registry_env =
  privateKey_fromHex :: "error option"
  addWalletStorageProvider :: "error option"
  makeAvailable :: "error option"
  date_now :: nat
  random_nonce :: string
  new_date :: nat
  stringify_unique :: "did_document \<Rightarrow> nat \<Rightarrow> string \<Rightarrow> string"
  stringify :: "did_document \<Rightarrow> string"
  sha256 :: "string \<Rightarrow> byte list"
  pushDrop_lock :: "lock_args \<Rightarrow> error + string"
  createAction :: "create_action_args \<Rightarrow> error + create_action_result"
  insertOne_error :: "lookup_record \<Rightarrow> error option"
  findOne_error :: "string \<Rightarrow> error option"
  fetch :: "string \<Rightarrow> lookup_query \<Rightarrow> error + http_response"
  json_parse :: "string \<Rightarrow> error + json"
  compare_positive :: "json \<Rightarrow> error + bool"
  parseInt :: "string \<Rightarrow> 'n"
  number_string :: "'n \<Rightarrow> string"
  utf8 :: "string \<Rightarrow> byte list"
  script_toHex :: "script_chunk list \<Rightarrow> error + string"

text \<open>
  The registry object and what it acts on: its configuration, the collection behind
  \<open>this.db\<close> (\<open>None\<close> when no database was given), whether \<open>this.walletClient\<close> has
  been assigned, the actions the wallet has created, and the error console.
\<close>

record registry =
  topic :: string
  overlayProvider :: string
  db :: "lookup_record list option"
  walletClient :: bool
  ledger :: "create_action_args list"
  console :: "log_entry list"

definition console_error :: "string \<Rightarrow> log_arg option \<Rightarrow> registry \<Rightarrow> registry" where
  "console_error label arg this = this\<lparr>console := console this @ [ConsoleError label arg]\<rparr>"

subsection \<open>createWalletClient\<close>

text \<open>
  The wallet client is built from the funding key and the storage provider; the first
  step that throws ends the construction.
\<close>

definition createWalletClient :: "'n registry_env \<Rightarrow> error option" where
  "createWalletClient env =
     (case privateKey_fromHex env of Some e \<Rightarrow> Some e | None \<Rightarrow>
     (case addWalletStorageProvider env of Some e \<Rightarrow> Some e | None \<Rightarrow>
        makeAvailable env))"

subsection \<open>createDID\<close>

definition default_context :: "string list" where
  "default_context = [''https://www.w3.org/ns/did/v1'']"

definition EcdsaSecp256k1VerificationKey2019 :: string where
  "EcdsaSecp256k1VerificationKey2019 = ''EcdsaSecp256k1VerificationKey2019''"

text \<open>\<open>keyId\<close> as a condition: given and not the empty string.\<close>

definition truthy_keyId :: "string option \<Rightarrow> string option" where
  "truthy_keyId k = (case k of None \<Rightarrow> None | Some s \<Rightarrow> if s = [] then None else Some s)"

text \<open>
  The final document: the input document with \<open>id\<close> and \<open>@context\<close> set and the six
  lists emptied, then the verification method of the supplied key, under the explicit
  key id or under \<open><did>#key-1\<close>.
\<close>

definition finalDidDocument :: "did_document \<Rightarrow> string \<Rightarrow> jwk option \<Rightarrow> string option \<Rightarrow> did_document" where
  "finalDidDocument doc did pk kid =
     (let final = doc\<lparr>doc_id := did,
                      doc_context := Some (case doc_context doc of None \<Rightarrow> default_context | Some c \<Rightarrow> c),
                      verificationMethod := [], authentication := [], assertionMethod := [],
                      keyAgreement := [], capabilityDelegation := [], capabilityInvocation := []\<rparr>
      in case pk of
           None \<Rightarrow> final
         | Some key \<Rightarrow>
             (case truthy_keyId kid of
                Some k \<Rightarrow>
                  final\<lparr>verificationMethod :=
                          [\<lparr>vm_id = k, vm_type = EcdsaSecp256k1VerificationKey2019,
                            vm_controller = did, publicKeyJwk = key\<rparr>],
                        authentication := [MethodId k],
                        assertionMethod := [MethodId k]\<rparr>
              | None \<Rightarrow>
                  final\<lparr>verificationMethod :=
                          [\<lparr>vm_id = did @ ''#key-1'', vm_type = EcdsaSecp256k1VerificationKey2019,
                            vm_controller = did, publicKeyJwk = key\<rparr>],
                        authentication := [MethodId (did @ ''#key-1'')],
                        assertionMethod := [MethodId (did @ ''#key-1'')]\<rparr>))"

text \<open>
  The write to the lookup index: skipped without a database; a failed write is printed
  to the error console and the call goes on.
\<close>

definition store_lookup :: "'n registry_env \<Rightarrow> lookup_record \<Rightarrow> registry \<Rightarrow> registry" where
  "store_lookup env lookupData this =
     (case db this of
        None \<Rightarrow> this
      | Some did_lookups \<Rightarrow>
          (case insertOne_error env lookupData of
             Some dbError \<Rightarrow>
               console_error ''[BsvOverlayRegistry] Error storing DID lookup in MongoDB:''
                 (Some (ErrorArg dbError)) this
           | None \<Rightarrow> this\<lparr>db := Some (did_lookups @ [lookupData])\<rparr>))"

text \<open>
  The locals of the \<open>try\<close> block of \<open>createDID\<close>: the serial number (the SHA-256
  digest of the document with the time stamp and the random nonce), the identifier, the
  arguments of the PushDrop lock, the action asked of the wallet, and the record for the
  lookup index.
\<close>

definition serialNumberBytes :: "'n registry_env \<Rightarrow> create_options \<Rightarrow> byte list" where
  "serialNumberBytes env options =
     sha256 env (stringify_unique env (didDocument options) (date_now env) (random_nonce env))"

definition created_did :: "registry \<Rightarrow> string \<Rightarrow> string" where
  "created_did this serial = ''did:bsv:'' @ topic this @ '':'' @ serial"

definition pushDrop_args :: "byte list \<Rightarrow> lock_args" where
  "pushDrop_args bytes =
     \<lparr>lock_fields = [bytes], protocolID = (0, ''tm did''), keyID = toHex bytes,
      counterparty = ''self'', includeSignature = True, lockPosition = ''before'', forSelf = True\<rparr>"

definition create_action :: "string \<Rightarrow> byte list \<Rightarrow> did_document \<Rightarrow> create_action_args" where
  "create_action script bytes doc =
     \<lparr>description = ''Create DID transaction with BSV overlay'',
      inputs = [],
      outputs = [\<lparr>lockingScript = script, satoshis = 1,
                  outputDescription = ''DID PushDrop Token'',
                  basket = Some ''bsv-did'',
                  customInstructions = Some (PushDropInstructions (pushDrop_args bytes) doc)\<rparr>],
      randomizeOutputs = Some False,
      labels = [''bsv-did'', ''create'']\<rparr>"

definition lookupData :: "'n registry_env \<Rightarrow> registry \<Rightarrow> string \<Rightarrow> create_action_result
    \<Rightarrow> did_document \<Rightarrow> lookup_record" where
  "lookupData env this serial car final =
     \<lparr>lr_serialNumber = serial, lr_txid = Some (car_txid car), lr_vout = Some 0,
      lr_topic = topic this, lr_didDocument = Some final, lr_createdAt = new_date env\<rparr>"

text \<open>The body of the \<open>try\<close> block of \<open>createDID\<close>.\<close>

definition createDID_try :: "'n registry_env \<Rightarrow> registry \<Rightarrow> create_options
    \<Rightarrow> (error + create_result) \<times> registry" where
  "createDID_try env this options =
     (let bytes = serialNumberBytes env options;
          did = created_did this (toHex bytes)
      in case pushDrop_lock env (pushDrop_args bytes) of
           Inl e \<Rightarrow> (Inl e, this)
         | Inr script \<Rightarrow>
             (let action = create_action script bytes (didDocument options)
              in case createAction env action of
                   Inl e \<Rightarrow> (Inl e, this)
                 | Inr car \<Rightarrow>
                     (let anchored = this\<lparr>ledger := ledger this @ [action]\<rparr>;
                          final = finalDidDocument (didDocument options) did
                                    (publicKeyJWK options) (keyId options)
                      in (Inr \<lparr>cr_did = did, cr_car = car, cr_didDocument = final\<rparr>,
                          store_lookup env (lookupData env anchored (toHex bytes) car final)
                            anchored))))"

text \<open>
  \<open>createDID\<close>: the wallet client is created before the \<open>try\<close> block, so its failure
  is thrown as it is; an error of the block is printed and thrown again.
\<close>

definition createDID :: "'n registry_env \<Rightarrow> registry \<Rightarrow> create_options
    \<Rightarrow> (error + create_result) \<times> registry" where
  "createDID env this options =
     (case createWalletClient env of
        Some e \<Rightarrow> (Inl e, this)
      | None \<Rightarrow>
          (case createDID_try env (this\<lparr>walletClient := True\<rparr>) options of
             (Inl error, this') \<Rightarrow>
               (Inl error,
                console_error ''[BsvOverlayRegistry] Error stack:'' (Some (StackArg error))
                 (console_error ''[BsvOverlayRegistry] Error in createDID:'' (Some (ErrorArg error))
                   (console_error ''[BsvOverlayRegistry] ========== createDID ERROR =========='' None
                      this')))
           | (Inr result, this') \<Rightarrow> (Inr result, this')))"

subsection \<open>resolveDID\<close>

text \<open>\<open>findOne({ serialNumber })\<close>: the first stored record with that serial number.\<close>

definition findOne :: "lookup_record list \<Rightarrow> string \<Rightarrow> lookup_record option" where
  "findOne did_lookups serial = find (\<lambda>r. lr_serialNumber r = serial) did_lookups"

text \<open>
  JavaScript on the JSON value of the answer. A value that may be \<open>undefined\<close> is a
  \<open>json option\<close>, with \<open>None\<close> for \<open>undefined\<close>. The members of an object have
  distinct names, and a string is taken as the sequence of its code units.
\<close>

text \<open>\<open>v.p\<close> for a property name \<open>p\<close> that is neither \<open>length\<close> nor an index.\<close>

definition get_property :: "json option \<Rightarrow> string \<Rightarrow> error + json option" where
  "get_property receiver p =
     (case receiver of
        None \<Rightarrow> Inl (type_error ''undefined'' p)
      | Some JNull \<Rightarrow> Inl (type_error ''null'' p)
      | Some (JObject members) \<Rightarrow> Inr (map_of members p)
      | Some _ \<Rightarrow> Inr None)"

text \<open>A value as a condition.\<close>

definition truthy :: "json option \<Rightarrow> bool" where
  "truthy x =
     (case x of
        None \<Rightarrow> False
      | Some JNull \<Rightarrow> False
      | Some (JBool b) \<Rightarrow> b
      | Some (JNumber n) \<Rightarrow> n \<noteq> 0
      | Some (JString text) \<Rightarrow> text \<noteq> []
      | Some _ \<Rightarrow> True)"

text \<open>\<open>v.length\<close> and \<open>v[0]\<close> for a value \<open>v\<close> that is neither \<open>null\<close> nor \<open>undefined\<close>.\<close>

definition js_length :: "json \<Rightarrow> json option" where
  "js_length v =
     (case v of
        JArray items \<Rightarrow> Some (JNumber (int (length items)))
      | JString text \<Rightarrow> Some (JNumber (int (length text)))
      | JObject members \<Rightarrow> map_of members ''length''
      | _ \<Rightarrow> None)"

definition first_item :: "json \<Rightarrow> json option" where
  "first_item v =
     (case v of
        JArray items \<Rightarrow> (case items of [] \<Rightarrow> None | item # _ \<Rightarrow> Some item)
      | JString text \<Rightarrow> (case text of [] \<Rightarrow> None | c # _ \<Rightarrow> Some (JString [c]))
      | JObject members \<Rightarrow> map_of members ''0''
      | _ \<Rightarrow> None)"

text \<open>\<open>x > 0\<close>: false for \<open>undefined\<close>, arithmetic for a number, a conversion otherwise.\<close>

definition greater_than_zero :: "'n registry_env \<Rightarrow> json option \<Rightarrow> error + bool" where
  "greater_than_zero env x =
     (case x of
        None \<Rightarrow> Inr False
      | Some (JNumber n) \<Rightarrow> Inr (0 < n)
      | Some v \<Rightarrow> compare_positive env v)"

text \<open>The condition \<open>x && x.length > 0\<close>.\<close>

definition nonempty :: "'n registry_env \<Rightarrow> json option \<Rightarrow> error + bool" where
  "nonempty env x =
     (case x of
        None \<Rightarrow> Inr False
      | Some v \<Rightarrow> if truthy (Some v) then greater_than_zero env (js_length v) else Inr False)"

text \<open>
  The value returned from the overlay branch as the result of the call: \<open>null\<close> is the
  "not found" result.
\<close>

definition as_result :: "json option \<Rightarrow> resolved option" where
  "as_result x =
     (case x of None \<Rightarrow> Some Undefined | Some JNull \<Rightarrow> None | Some v \<Rightarrow> Some (Decoded v))"

text \<open>
  The answer that was read: when its type is \<open>output-list\<close> and it has outputs, the first
  field of the first output is taken. A string is parsed as JSON, and a parse error is
  printed and dropped; any other value is returned as it is. Reading a property of
  \<open>null\<close> or \<open>undefined\<close> on the way throws.
\<close>

definition decode_answer :: "'n registry_env \<Rightarrow> registry \<Rightarrow> json
    \<Rightarrow> (error + resolved option) \<times> registry" where
  "decode_answer env this data =
     (case get_property (Some data) ''type'' of
        Inl e \<Rightarrow> (Inl e, this)
      | Inr ty \<Rightarrow>
     (if ty \<noteq> Some (JString ''output-list'') then (Inr None, this)
      else
     (case get_property (Some data) ''outputs'' of
        Inl e \<Rightarrow> (Inl e, this)
      | Inr outs \<Rightarrow>
     (case nonempty env outs of
        Inl e \<Rightarrow> (Inl e, this)
      | Inr False \<Rightarrow> (Inr None, this)
      | Inr True \<Rightarrow>
     (let output = (case outs of None \<Rightarrow> None | Some v \<Rightarrow> first_item v) in
     (case get_property output ''fields'' of
        Inl e \<Rightarrow> (Inl e, this)
      | Inr output_fields \<Rightarrow>
     (case nonempty env output_fields of
        Inl e \<Rightarrow> (Inl e, this)
      | Inr False \<Rightarrow> (Inr None, this)
      | Inr True \<Rightarrow>
     (let didDocumentField = (case output_fields of None \<Rightarrow> None | Some v \<Rightarrow> first_item v) in
     (case didDocumentField of
        Some (JString text) \<Rightarrow>
          (case json_parse env text of
             Inl parseError \<Rightarrow>
               (Inr None,
                console_error ''[BsvOverlayRegistry] Error parsing DID document:''
                  (Some (ErrorArg parseError)) this)
           | Inr parsed \<Rightarrow> (Inr (as_result (Some parsed)), this))
      | _ \<Rightarrow> (Inr (as_result didDocumentField), this))))))))))"

text \<open>The inner \<open>try\<close> block around the overlay query; its handler prints and throws again.\<close>

definition query_overlay :: "'n registry_env \<Rightarrow> registry \<Rightarrow> string \<Rightarrow> string
    \<Rightarrow> (error + resolved option) \<times> registry" where
  "query_overlay env this serial outp =
     (case (case fetch env (overlayProvider this @ ''/lookup'')
                   \<lparr>service = ''ls_did'', q_serialNumber = serial, q_outpoint = outp\<rparr> of
              Inl e \<Rightarrow> (Inl e, this)
            | Inr response \<Rightarrow>
                (if \<not> ok response then
                   (Inl (Error (''Overlay provider error: '' @ show_nat (status response))),
                    console_error ''[BsvOverlayRegistry] ERROR: Overlay provider error:''
                      (Some (NumberArg (status response))) this)
                 else (case json_body response of
                         Inl e \<Rightarrow> (Inl e, this)
                       | Inr data \<Rightarrow> decode_answer env this data))) of
        (Inl error, this') \<Rightarrow>
          (Inl error,
           console_error ''[BsvOverlayRegistry] Error querying LARS:'' (Some (ErrorArg error)) this')
      | (Inr r, this') \<Rightarrow> (Inr r, this'))"

text \<open>The body of the outer \<open>try\<close> block of \<open>resolveDID\<close>.\<close>

definition resolveDID_try :: "'n registry_env \<Rightarrow> registry \<Rightarrow> string
    \<Rightarrow> (error + resolved option) \<times> registry" where
  "resolveDID_try env this did =
     (case split_colon did of
        [p0, p1, tpc, serial] \<Rightarrow>
          (if p0 \<noteq> ''did'' \<or> p1 \<noteq> ''bsv'' then (Inl (Error ''Invalid DID format''), this)
           else (case db this of
                   None \<Rightarrow> (Inr None, this)
                 | Some did_lookups \<Rightarrow>
                     (case findOne_error env serial of
                        Some e \<Rightarrow> (Inl e, this)
                      | None \<Rightarrow>
                     (case findOne did_lookups serial of
                        None \<Rightarrow> (Inr None, this)
                      | Some didLookup \<Rightarrow>
                          (case lr_didDocument didLookup of
                             Some doc \<Rightarrow> (Inr (Some (Document doc)), this)
                           | None \<Rightarrow>
                               (case (lr_txid didLookup, lr_vout didLookup) of
                                  (Some tx, Some vout) \<Rightarrow>
                                    (if tx = [] then (Inr None, this)
                                     else if overlayProvider this = [] then
                                       (Inl (Error ''Overlay provider URL not configured''), this)
                                     else query_overlay env this serial (tx @ ''.'' @ show_nat vout))
                                | _ \<Rightarrow> (Inr None, this)))))))
      | _ \<Rightarrow> (Inl (Error ''Invalid DID format''), this))"

text \<open>
  \<open>resolveDID\<close>: every error of the block is printed and replaced by a new error whose
  message has the prefix \<open>Failed to resolve DID: \<close>. The parameter \<open>car\<close> of the source
  is not read.
\<close>

definition resolveDID :: "'n registry_env \<Rightarrow> registry \<Rightarrow> string
    \<Rightarrow> (error + resolved option) \<times> registry" where
  "resolveDID env this did =
     (case resolveDID_try env this did of
        (Inl error, this') \<Rightarrow>
          (Inl (Error (''Failed to resolve DID: '' @ message error)),
           console_error ''[BsvOverlayRegistry] Error type:'' (Some (TypeArg error))
            (console_error ''[BsvOverlayRegistry] Error stack:'' (Some (StackArg error))
              (console_error ''[BsvOverlayRegistry] Error resolving DID:'' (Some (ErrorArg error))
                 this')))
      | (Inr r, this') \<Rightarrow> (Inr r, this'))"

subsection \<open>updateDID\<close>

text \<open>The three \<open>console.error\<close> calls shared by the handlers of the update path.\<close>

definition log_error3 :: "string \<Rightarrow> error \<Rightarrow> registry \<Rightarrow> registry" where
  "log_error3 label error this =
     console_error ''[BsvOverlayRegistry] Error type:'' (Some (TypeArg error))
      (console_error ''[BsvOverlayRegistry] Error stack:'' (Some (StackArg error))
        (console_error label (Some (ErrorArg error)) this))"

text \<open>\<open>buildOpReturnScript\<close>: \<open>OP_FALSE\<close>, \<open>OP_RETURN\<close>, then every item as a data push.\<close>

definition buildOpReturnScript :: "'n registry_env \<Rightarrow> registry \<Rightarrow> string list
    \<Rightarrow> (error + string) \<times> registry" where
  "buildOpReturnScript env this items =
     (case script_toHex env ([OpCode 0, OpCode 106] @ map (\<lambda>item. Bin (utf8 env item)) items) of
        Inl error \<Rightarrow>
          (Inl error, log_error3 ''[BsvOverlayRegistry] Error building OP_RETURN script:'' error this)
      | Inr hex \<Rightarrow> (Inr hex, this))"

definition identifier_script :: string where
  "identifier_script = ''76a914'' @ concat (replicate 20 ''00'') @ ''88ac''"

text \<open>The error of calling a method on \<open>this.walletClient\<close> while it is unassigned.\<close>

definition walletClient_undefined :: error where
  "walletClient_undefined = type_error ''undefined'' ''createAction''"

definition updateActionArgs :: "registry \<Rightarrow> string \<Rightarrow> string \<Rightarrow> string \<Rightarrow> create_action_args" where
  "updateActionArgs this previousTxid previousVout script =
     \<lparr>description = ''Update DID on BSV overlay (topic: '' @ topic this @ '')'',
      inputs = [\<lparr>outpoint = previousTxid @ '':'' @ previousVout,
                 inputDescription = ''Previous DID output''\<rparr>],
      outputs = [\<lparr>lockingScript = script, satoshis = 0,
                  outputDescription = ''Updated DID Document'',
                  basket = None, customInstructions = None\<rparr>,
                 \<lparr>lockingScript = identifier_script, satoshis = 1,
                  outputDescription = ''Updated DID identifier'',
                  basket = None,
                  customInstructions = Some (KeyDerivation ''did-identifier'' ''self'')\<rparr>],
      randomizeOutputs = None,
      labels = [''quarkid'', ''did'', ''update'']\<rparr>"

text \<open>The body of the outer \<open>try\<close> block of \<open>updateDID\<close>, with the inner one around the wallet call.\<close>

definition updateDID_try :: "'n registry_env \<Rightarrow> registry \<Rightarrow> string \<Rightarrow> did_document
    \<Rightarrow> (error + update_result) \<times> registry" where
  "updateDID_try env this did newDidDocument =
     (case split_colon did of
        [p0, p1, p2, previousTxid, p4] \<Rightarrow>
          (let previousVout = number_string env (parseInt env p4)
           in case buildOpReturnScript env this
                     [topic this, ''UPDATE'', previousTxid, previousVout, stringify env newDidDocument] of
                (Inl e, this') \<Rightarrow> (Inl e, this')
              | (Inr script, this') \<Rightarrow>
                  (let args = updateActionArgs this' previousTxid previousVout script
                   in case (if walletClient this' then createAction env args
                            else Inl walletClient_undefined) of
                        Inl error \<Rightarrow>
                          (Inl error, log_error3 ''[BsvOverlayRegistry] Error updating DID:'' error this')
                      | Inr result \<Rightarrow>
                          (Inr \<lparr>ur_did = ''did:bsv:'' @ topic this' @ '':'' @ car_txid result @ '':1'',
                                ur_txid = car_txid result\<rparr>,
                           this'\<lparr>ledger := ledger this' @ [args]\<rparr>)))
      | _ \<Rightarrow>
          (Inl (Error ''Invalid DID format''),
           console_error ''[BsvOverlayRegistry] ERROR: Invalid DID format'' None this))"

definition updateDID :: "'n registry_env \<Rightarrow> registry \<Rightarrow> string \<Rightarrow> did_document
    \<Rightarrow> (error + update_result) \<times> registry" where
  "updateDID env this did newDidDocument =
     (case updateDID_try env this did newDidDocument of
        (Inl error, this') \<Rightarrow>
          (Inl error, log_error3 ''[BsvOverlayRegistry] Error updating DID:'' error this')
      | (Inr r, this') \<Rightarrow> (Inr r, this'))"

section \<open>Example collaborators and inputs\<close>

text \<open>
  Small stand-ins for the collaborators, on which the properties below are run. They fix
  a behaviour for each call; they are not the SDK's functions.
\<close>

definition example_certifier_env :: certifier_env where
  "example_certifier_env =
     \<lparr>verifyNonce = (\<lambda>nonce key. Inr True),
      createNonce = (\<lambda>key. Inr ''QkE='' ),
      toArray_base64 = map (\<lambda>c. if c = CHR ''A'' then 0 else 1),
      createHmac = (\<lambda>a. Inr (rev (hmac_data a))),
      toBase64 = map (\<lambda>b. if b = 0 then CHR ''A'' else CHR ''B''),
      decryptFields = (\<lambda>keyring fs key. Inr (map (\<lambda>(k, v). (k, ''plain'')) fs)),
      getPublicKey_identity = Inr ''02certifier'',
      cert_sign = (\<lambda>c. Inr ''3045'')\<rparr>"

definition example_request :: sign_request where
  "example_request =
     \<lparr>clientNonce = Some ''AAB='', req_type = Some ''dHlwZQ=='',
      req_fields = Some [(''cool'', ''encrypted'')],
      masterKeyring = Some [(''cool'', ''key'')],
      identityKey = ''02subject''\<rparr>"

definition example_certificate :: certificate where
  "example_certificate =
     \<lparr>cert_type = ''dHlwZQ=='', serialNumber = ''BBBBBBAA'', subject = ''02subject'',
      certifier = ''02certifier'', revocationOutpoint = replicate 64 CHR ''0'' @ ''.0'',
      cert_fields = [(''cool'', ''encrypted'')], signature = Some ''3045''\<rparr>"

definition failing_decrypt_env :: certifier_env where
  "failing_decrypt_env =
     example_certifier_env\<lparr>decryptFields := (\<lambda>keyring fs key. Inl (Error ''no keyring entry for cool''))\<rparr>"

definition rejecting_env :: certifier_env where
  "rejecting_env = example_certifier_env\<lparr>verifyNonce := (\<lambda>nonce key. Inr False)\<rparr>"

definition example_digest :: "byte list" where
  "example_digest =
     [0x9f, 0x86, 0xd0, 0x81, 0x88, 0x4c, 0x7d, 0x65, 0x9a, 0x2f, 0xea, 0xa0, 0xc5, 0x5a, 0xd0, 0x15,
      0xa3, 0xbf, 0x4f, 0x1b, 0x2b, 0x0b, 0x82, 0x2c, 0xd1, 0x5d, 0x6c, 0x15, 0xb0, 0xf0, 0x0a, 0x08]"

definition example_serial :: string where
  "example_serial = ''9f86d081884c7d659a2feaa0c55ad015a3bf4f1b2b0b822cd15d6c15b0f00a08''"

definition example_key :: jwk where
  "example_key = JWK ''EC'' ''secp256k1'' ''eHh4'' ''eXl5''"

definition example_document :: did_document where
  "example_document =
     \<lparr>doc_id = [], doc_context = None,
      verificationMethod = [\<lparr>vm_id = ''#old'', vm_type = ''JsonWebKey2020'', vm_controller = ''did:example:1'',
                             publicKeyJwk = JWK ''EC'' ''P-256'' ''YQ=='' ''Yg==''\<rparr>],
      authentication = [MethodId ''#old''], assertionMethod = [MethodId ''#old''],
      keyAgreement = [MethodId ''#old''], capabilityDelegation = [MethodId ''#old''],
      capabilityInvocation = [MethodId ''#old''], doc_other = [(''service'', ''[]'')]\<rparr>"

definition example_options :: create_options where
  "example_options = \<lparr>didDocument = example_document, publicKeyJWK = Some example_key, keyId = None\<rparr>"

definition example_car :: create_action_result where
  "example_car = \<lparr>car_txid = ''aa11'', car_tx = [1, 1, 0, 1]\<rparr>"

definition example_registry_env :: "nat registry_env" where
  "example_registry_env =
     \<lparr>privateKey_fromHex = None, addWalletStorageProvider = None, makeAvailable = None,
      date_now = 1700000000000, random_nonce = ''k3j9x0q1zab'', new_date = 1700000000005,
      stringify_unique = (\<lambda>doc t n. ''{...}''),
      stringify = (\<lambda>doc. ''{...}''),
      sha256 = (\<lambda>text. example_digest),
      pushDrop_lock = (\<lambda>a. Inr ''21ac''),
      createAction = (\<lambda>a. Inr example_car),
      insertOne_error = (\<lambda>r. None),
      findOne_error = (\<lambda>serial. None),
      fetch = (\<lambda>url q. Inl (Error ''fetch failed'')),
      json_parse = (\<lambda>text. Inl (Error ''Unexpected token'')),
      compare_positive = (\<lambda>v. Inr False),
      parseInt = (\<lambda>text. if text = ''0'' then 0 else 7),
      number_string = show_nat,
      utf8 = map (\<lambda>c. of_nat (of_char c)),
      script_toHex = (\<lambda>chunks. Inr ''006a'')\<rparr>"

definition example_registry :: registry where
  "example_registry =
     \<lparr>topic = ''tm_did'', overlayProvider = ''https://overlay.example'', db = Some [],
      walletClient = False, ledger = [], console = []\<rparr>"

definition failing_index_env :: "nat registry_env" where
  "failing_index_env =
     example_registry_env\<lparr>insertOne_error := (\<lambda>r. Some (Error ''MongoNetworkError''))\<rparr>"

definition example_did :: string where
  "example_did = ''did:bsv:tm_did:9f86d081884c7d659a2feaa0c55ad015a3bf4f1b2b0b822cd15d6c15b0f00a08''"

definition example_final :: did_document where
  "example_final = finalDidDocument example_document example_did (Some example_key) None"

definition example_record :: lookup_record where
  "example_record =
     \<lparr>lr_serialNumber = example_serial, lr_txid = Some ''aa11'', lr_vout = Some 0,
      lr_topic = ''tm_did'', lr_didDocument = Some example_final, lr_createdAt = 1700000000005\<rparr>"

definition example_created :: registry where
  "example_created =
     example_registry\<lparr>db := Some [example_record], walletClient := True,
       ledger := [create_action ''21ac'' example_digest example_document]\<rparr>"

definition colon_registry :: registry where
  "colon_registry = example_registry\<lparr>topic := ''tm:did''\<rparr>"

definition colon_did :: string where
  "colon_did = ''did:bsv:tm:did:9f86d081884c7d659a2feaa0c55ad015a3bf4f1b2b0b822cd15d6c15b0f00a08''"

definition colon_created :: registry where
  "colon_created =
     colon_registry
       \<lparr>db := Some [\<lparr>lr_serialNumber = example_serial, lr_txid = Some ''aa11'', lr_vout = Some 0,
                      lr_topic = ''tm:did'',
                      lr_didDocument =
                        Some (finalDidDocument example_document colon_did (Some example_key) None),
                      lr_createdAt = 1700000000005\<rparr>],
        walletClient := True,
        ledger := [create_action ''21ac'' example_digest example_document]\<rparr>"

definition uncached_record :: lookup_record where
  "uncached_record =
     \<lparr>lr_serialNumber = example_serial, lr_txid = Some ''aa11'', lr_vout = Some 0,
      lr_topic = ''tm_did'', lr_didDocument = None, lr_createdAt = 1700000000005\<rparr>"

definition uncached_registry :: registry where
  "uncached_registry = example_registry\<lparr>db := Some [uncached_record]\<rparr>"

definition example_query :: lookup_query where
  "example_query = \<lparr>service = ''ls_did'', q_serialNumber = example_serial, q_outpoint = ''aa11.0''\<rparr>"

definition undecodable_answer :: json where
  "undecodable_answer =
     JObject [(''type'', JString ''output-list''),
              (''outputs'', JArray [JObject [(''fields'', JArray [JString ''not json''])]])]"

definition null_output_answer :: json where
  "null_output_answer =
     JObject [(''type'', JString ''output-list''), (''outputs'', JArray [JNull])]"

definition undecodable_env :: "nat registry_env" where
  "undecodable_env =
     example_registry_env
       \<lparr>fetch := (\<lambda>url q. Inr \<lparr>ok = True, status = 200, json_body = Inr undecodable_answer\<rparr>),
        json_parse := (\<lambda>text. if text = ''{}'' then Inr (JObject [])
                               else Inl (Error ''Unexpected token o in JSON at position 1''))\<rparr>"

definition null_output_env :: "nat registry_env" where
  "null_output_env =
     example_registry_env
       \<lparr>fetch := (\<lambda>url q. Inr \<lparr>ok = True, status = 200, json_body = Inr null_output_answer\<rparr>)\<rparr>"

definition unavailable_env :: "nat registry_env" where
  "unavailable_env =
     example_registry_env
       \<lparr>fetch := (\<lambda>url q. Inr \<lparr>ok = False, status = 503,
                                 json_body = Inl (Error ''Unexpected end of JSON input'')\<rparr>)\<rparr>"

section \<open>Properties of the certificate issuer\<close>

subsection \<open>What a successful run has done\<close>

lemma check_passes:
  "certifierSignCheckArgs req = None \<Longrightarrow>
     \<exists>cn ty fs kr. clientNonce req = Some cn \<and> cn \<noteq> [] \<and> req_type req = Some ty \<and> ty \<noteq> []
        \<and> req_fields req = Some fs \<and> masterKeyring req = Some kr"
  by (auto simp: certifierSignCheckArgs_def falsy_string_def split: if_splits option.splits)

lemma signCertificate_ok:
  assumes "signCertificate env req = (Response 200 (CertificateBody c sn), lg)"
  shows "\<exists>cn ty fs kr out. clientNonce req = Some cn \<and> req_type req = Some ty
           \<and> req_fields req = Some fs \<and> masterKeyring req = Some kr
           \<and> certifierSignCheckArgs req = None
           \<and> issue env cn ty fs kr (identityKey req) = (Inr (c, sn), out)
           \<and> lg = ConsoleLog ''clientNonce'' (NonceArg (clientNonce req)) # out"
  using assms
  by (auto simp: signCertificate_def internal_error_def Let_def
      split: option.splits sum.splits prod.splits)

lemma issue_ok:
  assumes "issue env cn ty fs kr idk = (Inr (c, sn), out)"
  shows "\<exists>v h d pk sg. verifyNonce env cn idk = Inr v \<and> createNonce env idk = Inr sn
     \<and> createHmac env \<lparr>hmac_data = toArray_base64 env (cn @ sn),
              hmac_protocolID = (2, ''certificate issuance''),
              hmac_keyID = sn @ cn, hmac_counterparty = idk\<rparr> = Inr h
     \<and> decryptFields env kr fs idk = Inr d
     \<and> getPublicKey_identity env = Inr pk
     \<and> cert_sign env \<lparr>cert_type = ty, serialNumber = toBase64 env h, subject = idk, certifier = pk,
             revocationOutpoint = revocationTxid @ ''.0'', cert_fields = fs, signature = None\<rparr> = Inr sg
     \<and> c = \<lparr>cert_type = ty, serialNumber = toBase64 env h, subject = idk, certifier = pk,
             revocationOutpoint = revocationTxid @ ''.0'', cert_fields = fs, signature = Some sg\<rparr>
     \<and> out = [ConsoleLog ''decryptedFields'' (FieldsArg d)]"
  using assms
  by (auto simp: issue_def Let_def split: sum.splits)

lemma example_run:
  "signCertificate example_certifier_env example_request =
     (Response 200 (CertificateBody example_certificate ''QkE=''),
      [ConsoleLog ''clientNonce'' (NonceArg (Some ''AAB='')),
       ConsoleLog ''decryptedFields'' (FieldsArg [(''cool'', ''plain'')])])"
  by (simp add: signCertificate_def certifierSignCheckArgs_def falsy_string_def example_request_def
      example_certifier_env_def issue_def example_certificate_def revocationTxid_def)

lemma signCertificate_valid:
  assumes "clientNonce req = Some cn" "req_type req = Some ty" "req_fields req = Some fs"
    "masterKeyring req = Some kr" "certifierSignCheckArgs req = None"
  shows "signCertificate env req =
           (case issue env cn ty fs kr (identityKey req) of
              (Inl e, out) \<Rightarrow>
                (internal_error,
                 ConsoleLog ''clientNonce'' (NonceArg (clientNonce req)) # out
                   @ [ConsoleError [] (Some (ErrorArg e))])
            | (Inr (cert, serverNonce), out) \<Rightarrow>
                (Response 200 (CertificateBody cert serverNonce),
                 ConsoleLog ''clientNonce'' (NonceArg (clientNonce req)) # out))"
  using assms by (simp add: signCertificate_def Let_def split: prod.splits sum.splits)


lemma signCertificate_invalid:
  "certifierSignCheckArgs req = Some err \<Longrightarrow>
     fst (signCertificate env req) = Response 400 (ErrorBody ''error'' None (message err))"
  by (simp add: signCertificate_def Let_def)

lemma issue_failures:
  "verifyNonce env cn idk = Inl e \<Longrightarrow> \<exists>e' out. issue env cn ty fs kr idk = (Inl e', out)"
  "\<forall>key. \<exists>e. createNonce env key = Inl e \<Longrightarrow> \<exists>e' out. issue env cn ty fs kr idk = (Inl e', out)"
  "\<forall>a. \<exists>e. createHmac env a = Inl e \<Longrightarrow> \<exists>e' out. issue env cn ty fs kr idk = (Inl e', out)"
  "decryptFields env kr fs idk = Inl e \<Longrightarrow> \<exists>e' out. issue env cn ty fs kr idk = (Inl e', out)"
  "getPublicKey_identity env = Inl e \<Longrightarrow> \<exists>e' out. issue env cn ty fs kr idk = (Inl e', out)"
  "\<forall>c. \<exists>e. cert_sign env c = Inl e \<Longrightarrow> \<exists>e' out. issue env cn ty fs kr idk = (Inl e', out)"
proof -
  show "verifyNonce env cn idk = Inl e \<Longrightarrow> \<exists>e' out. issue env cn ty fs kr idk = (Inl e', out)"
    by (simp add: issue_def)
  show "\<forall>key. \<exists>e. createNonce env key = Inl e \<Longrightarrow> \<exists>e' out. issue env cn ty fs kr idk = (Inl e', out)"
    by (simp add: issue_def Let_def split: sum.splits) (metis Inl_Inr_False)
  show "\<forall>a. \<exists>e. createHmac env a = Inl e \<Longrightarrow> \<exists>e' out. issue env cn ty fs kr idk = (Inl e', out)"
    by (simp add: issue_def Let_def split: sum.splits) (metis Inl_Inr_False)
  show "decryptFields env kr fs idk = Inl e \<Longrightarrow> \<exists>e' out. issue env cn ty fs kr idk = (Inl e', out)"
    by (simp add: issue_def Let_def split: sum.splits)
  show "getPublicKey_identity env = Inl e \<Longrightarrow> \<exists>e' out. issue env cn ty fs kr idk = (Inl e', out)"
    by (simp add: issue_def Let_def split: sum.splits)
  show "\<forall>c. \<exists>e. cert_sign env c = Inl e \<Longrightarrow> \<exists>e' out. issue env cn ty fs kr idk = (Inl e', out)"
    by (simp add: issue_def Let_def split: sum.splits) (metis Inl_Inr_False)
qed

subsection \<open>The serial number\<close>

text \<open>
  Claim C1. Whenever the issuer answers with a certificate, its serial number is the
  base64 encoding of the HMAC that the wallet computes over the base64-decoding of
  \<open>clientNonce + serverNonce\<close>, under the protocol \<open>[2, 'certificate issuance']\<close>,
  with key id \<open>serverNonce + clientNonce\<close> and the requester's identity key as
  counterparty, where \<open>serverNonce\<close> is the nonce returned with the certificate. Hence
  two answered requests with the same client nonce, server nonce and identity key carry
  the same serial number.
\<close>

theorem signCertificate_serialNumber:
  assumes ok: "signCertificate env req = (Response 200 (CertificateBody c sn), lg)"
  shows "(\<exists>cn hmac. clientNonce req = Some cn
            \<and> createNonce env (identityKey req) = Inr sn
            \<and> createHmac env
                 \<lparr>hmac_data = toArray_base64 env (cn @ sn),
                  hmac_protocolID = (2, ''certificate issuance''),
                  hmac_keyID = sn @ cn,
                  hmac_counterparty = identityKey req\<rparr> = Inr hmac
            \<and> serialNumber c = toBase64 env hmac)
       \<and> (\<forall>req' c' lg'.
             signCertificate env req' = (Response 200 (CertificateBody c' sn), lg')
             \<and> clientNonce req' = clientNonce req \<and> identityKey req' = identityKey req
             \<longrightarrow> serialNumber c' = serialNumber c)"
proof -
  from signCertificate_ok [OF ok] obtain cn ty fs kr out where
    cn: "clientNonce req = Some cn" and
    iss: "issue env cn ty fs kr (identityKey req) = (Inr (c, sn), out)" by blast
  from issue_ok [OF iss] obtain h where
    nonce: "createNonce env (identityKey req) = Inr sn" and
    h: "createHmac env
          \<lparr>hmac_data = toArray_base64 env (cn @ sn),
           hmac_protocolID = (2, ''certificate issuance''),
           hmac_keyID = sn @ cn,
           hmac_counterparty = identityKey req\<rparr> = Inr h" and
    ser: "serialNumber c = toBase64 env h" by auto
  have first: "\<exists>cn hmac. clientNonce req = Some cn
            \<and> createNonce env (identityKey req) = Inr sn
            \<and> createHmac env
                 \<lparr>hmac_data = toArray_base64 env (cn @ sn),
                  hmac_protocolID = (2, ''certificate issuance''),
                  hmac_keyID = sn @ cn,
                  hmac_counterparty = identityKey req\<rparr> = Inr hmac
            \<and> serialNumber c = toBase64 env hmac"
    using cn nonce h ser by blast
  have second: "serialNumber c' = serialNumber c"
    if ok': "signCertificate env req' = (Response 200 (CertificateBody c' sn), lg')"
      and same: "clientNonce req' = clientNonce req" "identityKey req' = identityKey req"
    for req' c' lg'
  proof -
    from signCertificate_ok [OF ok'] obtain cn' ty' fs' kr' out' where
      cn': "clientNonce req' = Some cn'" and
      iss': "issue env cn' ty' fs' kr' (identityKey req') = (Inr (c', sn), out')" by blast
    from cn cn' same have eq: "cn' = cn" by simp
    from issue_ok [OF iss'] obtain h' where
      h': "createHmac env
          \<lparr>hmac_data = toArray_base64 env (cn' @ sn),
           hmac_protocolID = (2, ''certificate issuance''),
           hmac_keyID = sn @ cn',
           hmac_counterparty = identityKey req'\<rparr> = Inr h'" and
      ser': "serialNumber c' = toBase64 env h'" by auto
    from h h' eq same have "h' = h" by simp
    with ser ser' show ?thesis by simp
  qed
  from first second show ?thesis by blast
qed

theorem signCertificate_serialNumber_witness:
  "fst (signCertificate example_certifier_env example_request) =
     Response 200 (CertificateBody example_certificate ''QkE='')
   \<and> (\<exists>hmac. createHmac example_certifier_env
        \<lparr>hmac_data = toArray_base64 example_certifier_env (''AAB='' @ ''QkE=''),
         hmac_protocolID = (2, ''certificate issuance''),
         hmac_keyID = ''QkE='' @ ''AAB='',
         hmac_counterparty = ''02subject''\<rparr> = Inr hmac
       \<and> serialNumber example_certificate = toBase64 example_certifier_env hmac)"
proof -
  have "clientNonce example_request = Some ''AAB=''" "identityKey example_request = ''02subject''"
    by (simp_all add: example_request_def)
  with signCertificate_serialNumber [OF example_run] example_run show ?thesis
    by auto
qed

subsection \<open>The certified fields\<close>




subsection \<open>Error responses\<close>

text \<open>
  Claim C8, amended. A request in which \<open>clientNonce\<close>, \<open>type\<close>, \<open>fields\<close> or
  \<open>masterKeyring\<close> is missing is answered with status 400 and the message of the first
  failed check in that order, where an empty \<open>clientNonce\<close> or \<open>type\<close> fails its check
  as a missing one does. After a passed validation, every error thrown inside the
  handler, by the nonce verification, the creation of the server nonce, the HMAC, the
  decryption, the reading of the public key or the signing, is answered with status 500
  and the fixed body \<open>{status: 'error', code: 'ERR_INTERNAL', description}\<close>; the error
  itself goes to the console only.
\<close>

theorem signCertificate_error_responses:
  "(falsy_string (clientNonce req) \<longrightarrow>
      fst (signCertificate env req) = Response 400 (ErrorBody ''error'' None ''Missing client nonce!''))
   \<and> (\<not> falsy_string (clientNonce req) \<and> falsy_string (req_type req) \<longrightarrow>
      fst (signCertificate env req) = Response 400 (ErrorBody ''error'' None ''Missing certificate type!''))
   \<and> (\<not> falsy_string (clientNonce req) \<and> \<not> falsy_string (req_type req) \<and> req_fields req = None \<longrightarrow>
      fst (signCertificate env req)
        = Response 400 (ErrorBody ''error'' None ''Missing certificate fields to sign!''))
   \<and> (\<not> falsy_string (clientNonce req) \<and> \<not> falsy_string (req_type req) \<and> req_fields req \<noteq> None
        \<and> masterKeyring req = None \<longrightarrow>
      fst (signCertificate env req)
        = Response 400 (ErrorBody ''error'' None ''Missing masterKeyring to decrypt fields!''))
   \<and> (clientNonce req = None \<or> req_type req = None \<or> req_fields req = None \<or> masterKeyring req = None \<longrightarrow>
      http_status (fst (signCertificate env req)) = 400)
   \<and> (\<forall>cn ty fs keyring.
         certifierSignCheckArgs req = None \<and> clientNonce req = Some cn \<and> req_type req = Some ty
         \<and> req_fields req = Some fs \<and> masterKeyring req = Some keyring \<longrightarrow>
           (\<forall>e out. issue env cn ty fs keyring (identityKey req) = (Inl e, out) \<longrightarrow>
                 fst (signCertificate env req) = internal_error
                 \<and> last (snd (signCertificate env req)) = ConsoleError [] (Some (ErrorArg e)))
         \<and> (\<forall>e. verifyNonce env cn (identityKey req) = Inl e \<longrightarrow>
                 fst (signCertificate env req) = internal_error)
         \<and> ((\<forall>key. \<exists>e. createNonce env key = Inl e) \<longrightarrow>
                 fst (signCertificate env req) = internal_error)
         \<and> ((\<forall>a. \<exists>e. createHmac env a = Inl e) \<longrightarrow>
                 fst (signCertificate env req) = internal_error)
         \<and> (\<forall>e. decryptFields env keyring fs (identityKey req) = Inl e \<longrightarrow>
                 fst (signCertificate env req) = internal_error)
         \<and> (\<forall>e. getPublicKey_identity env = Inl e \<longrightarrow>
                 fst (signCertificate env req) = internal_error)
         \<and> ((\<forall>c. \<exists>e. cert_sign env c = Inl e) \<longrightarrow>
                 fst (signCertificate env req) = internal_error))
   \<and> internal_error
        = Response 500 (ErrorBody ''error'' (Some ''ERR_INTERNAL'') ''An internal error has occurred.'')"
proof -
  have a: "falsy_string (clientNonce req) \<Longrightarrow>
      fst (signCertificate env req) = Response 400 (ErrorBody ''error'' None ''Missing client nonce!'')"
    by (simp add: signCertificate_def certifierSignCheckArgs_def Let_def)
  have b: "\<not> falsy_string (clientNonce req) \<and> falsy_string (req_type req) \<Longrightarrow>
      fst (signCertificate env req) = Response 400 (ErrorBody ''error'' None ''Missing certificate type!'')"
    by (simp add: signCertificate_def certifierSignCheckArgs_def Let_def)
  have c: "\<not> falsy_string (clientNonce req) \<and> \<not> falsy_string (req_type req) \<and> req_fields req = None \<Longrightarrow>
      fst (signCertificate env req)
        = Response 400 (ErrorBody ''error'' None ''Missing certificate fields to sign!'')"
    by (simp add: signCertificate_def certifierSignCheckArgs_def Let_def)
  have d: "\<not> falsy_string (clientNonce req) \<and> \<not> falsy_string (req_type req) \<and> req_fields req \<noteq> None
        \<and> masterKeyring req = None \<Longrightarrow>
      fst (signCertificate env req)
        = Response 400 (ErrorBody ''error'' None ''Missing masterKeyring to decrypt fields!'')"
    by (simp add: signCertificate_def certifierSignCheckArgs_def Let_def)
  have e: "http_status (fst (signCertificate env req)) = 400"
    if "clientNonce req = None \<or> req_type req = None \<or> req_fields req = None \<or> masterKeyring req = None"
  proof -
    from that have "certifierSignCheckArgs req \<noteq> None"
      by (auto simp: certifierSignCheckArgs_def falsy_string_def)
    then obtain err where "certifierSignCheckArgs req = Some err"
      by blast
    from signCertificate_invalid [OF this] show ?thesis by simp
  qed
  have f: "(\<forall>e out. issue env cn ty fs keyring (identityKey req) = (Inl e, out) \<longrightarrow>
                 fst (signCertificate env req) = internal_error
                 \<and> last (snd (signCertificate env req)) = ConsoleError [] (Some (ErrorArg e)))
         \<and> (\<forall>e. verifyNonce env cn (identityKey req) = Inl e \<longrightarrow>
                 fst (signCertificate env req) = internal_error)
         \<and> ((\<forall>key. \<exists>e. createNonce env key = Inl e) \<longrightarrow>
                 fst (signCertificate env req) = internal_error)
         \<and> ((\<forall>a. \<exists>e. createHmac env a = Inl e) \<longrightarrow>
                 fst (signCertificate env req) = internal_error)
         \<and> (\<forall>e. decryptFields env keyring fs (identityKey req) = Inl e \<longrightarrow>
                 fst (signCertificate env req) = internal_error)
         \<and> (\<forall>e. getPublicKey_identity env = Inl e \<longrightarrow>
                 fst (signCertificate env req) = internal_error)
         \<and> ((\<forall>c. \<exists>e. cert_sign env c = Inl e) \<longrightarrow>
                 fst (signCertificate env req) = internal_error)"
    if v: "certifierSignCheckArgs req = None \<and> clientNonce req = Some cn \<and> req_type req = Some ty
         \<and> req_fields req = Some fs \<and> masterKeyring req = Some keyring" for cn ty fs keyring
  proof -
    from v have eq: "signCertificate env req =
           (case issue env cn ty fs keyring (identityKey req) of
              (Inl e, out) \<Rightarrow>
                (internal_error,
                 ConsoleLog ''clientNonce'' (NonceArg (clientNonce req)) # out
                   @ [ConsoleError [] (Some (ErrorArg e))])
            | (Inr (cert, serverNonce), out) \<Rightarrow>
                (Response 200 (CertificateBody cert serverNonce),
                 ConsoleLog ''clientNonce'' (NonceArg (clientNonce req)) # out))"
      by (intro signCertificate_valid) simp_all
    have fail: "fst (signCertificate env req) = internal_error
                \<and> last (snd (signCertificate env req)) = ConsoleError [] (Some (ErrorArg e'))"
      if "issue env cn ty fs keyring (identityKey req) = (Inl e', out')" for e' out'
      using eq that by simp
    show ?thesis
    proof (intro conjI allI impI)
      fix e out assume "issue env cn ty fs keyring (identityKey req) = (Inl e, out)"
      from fail [OF this] show "fst (signCertificate env req) = internal_error"
        and "last (snd (signCertificate env req)) = ConsoleError [] (Some (ErrorArg e))"
        by simp_all
    next
      fix e assume "verifyNonce env cn (identityKey req) = Inl e"
      from issue_failures(1) [OF this] fail show "fst (signCertificate env req) = internal_error"
        by blast
    next
      assume "\<forall>key. \<exists>e. createNonce env key = Inl e"
      from issue_failures(2) [OF this] fail show "fst (signCertificate env req) = internal_error"
        by blast
    next
      assume "\<forall>a. \<exists>e. createHmac env a = Inl e"
      from issue_failures(3) [OF this] fail show "fst (signCertificate env req) = internal_error"
        by blast
    next
      fix e assume "decryptFields env keyring fs (identityKey req) = Inl e"
      from issue_failures(4) [OF this] fail show "fst (signCertificate env req) = internal_error"
        by blast
    next
      fix e assume "getPublicKey_identity env = Inl e"
      from issue_failures(5) [OF this] fail show "fst (signCertificate env req) = internal_error"
        by blast
    next
      assume "\<forall>c. \<exists>e. cert_sign env c = Inl e"
      from issue_failures(6) [OF this] fail show "fst (signCertificate env req) = internal_error"
        by blast
    qed
  qed
  from a b c d e f show ?thesis
    unfolding internal_error_def by blast
qed

theorem signCertificate_error_responses_witness:
  "fst (signCertificate example_certifier_env (example_request\<lparr>masterKeyring := None\<rparr>))
     = Response 400 (ErrorBody ''error'' None ''Missing masterKeyring to decrypt fields!'')
   \<and> fst (signCertificate example_certifier_env (example_request\<lparr>clientNonce := None, req_type := None\<rparr>))
     = Response 400 (ErrorBody ''error'' None ''Missing client nonce!'')
   \<and> certifierSignCheckArgs example_request = None
   \<and> decryptFields failing_decrypt_env [(''cool'', ''key'')] [(''cool'', ''encrypted'')] ''02subject''
       = Inl (Error ''no keyring entry for cool'')
   \<and> fst (signCertificate failing_decrypt_env example_request)
       = Response 500 (ErrorBody ''error'' (Some ''ERR_INTERNAL'') ''An internal error has occurred.'')"
proof -
  have m: "\<not> falsy_string (clientNonce (example_request\<lparr>masterKeyring := None\<rparr>))
      \<and> \<not> falsy_string (req_type (example_request\<lparr>masterKeyring := None\<rparr>))
      \<and> req_fields (example_request\<lparr>masterKeyring := None\<rparr>) \<noteq> None
      \<and> masterKeyring (example_request\<lparr>masterKeyring := None\<rparr>) = None"
    by (simp add: example_request_def falsy_string_def)
  have n: "falsy_string (clientNonce (example_request\<lparr>clientNonce := None, req_type := None\<rparr>))"
    by (simp add: falsy_string_def)
  have v: "certifierSignCheckArgs example_request = None \<and> clientNonce example_request = Some ''AAB=''
      \<and> req_type example_request = Some ''dHlwZQ=='' \<and> req_fields example_request = Some [(''cool'', ''encrypted'')]
      \<and> masterKeyring example_request = Some [(''cool'', ''key'')]"
    by (simp add: example_request_def certifierSignCheckArgs_def falsy_string_def)
  have d: "decryptFields failing_decrypt_env [(''cool'', ''key'')] [(''cool'', ''encrypted'')]
             (identityKey example_request) = Inl (Error ''no keyring entry for cool'')"
    by (simp add: failing_decrypt_env_def)
  have i: "identityKey example_request = ''02subject''"
    by (simp add: example_request_def)
  note t1 = signCertificate_error_responses [of "example_request\<lparr>masterKeyring := None\<rparr>" example_certifier_env]
  note t2 = signCertificate_error_responses
              [of "example_request\<lparr>clientNonce := None, req_type := None\<rparr>" example_certifier_env]
  note t3 = signCertificate_error_responses [of example_request failing_decrypt_env]
  from t1 m have r1: "fst (signCertificate example_certifier_env (example_request\<lparr>masterKeyring := None\<rparr>))
     = Response 400 (ErrorBody ''error'' None ''Missing masterKeyring to decrypt fields!'')"
    by blast
  from t2 n have r2: "fst (signCertificate example_certifier_env (example_request\<lparr>clientNonce := None, req_type := None\<rparr>))
     = Response 400 (ErrorBody ''error'' None ''Missing client nonce!'')"
    by blast
  from t3 v d have r3: "fst (signCertificate failing_decrypt_env example_request) = internal_error"
    by blast
  from t3 have r4: "internal_error
        = Response 500 (ErrorBody ''error'' (Some ''ERR_INTERNAL'') ''An internal error has occurred.'')"
    by blast
  from r1 r2 r3 r4 v d i show ?thesis by simp
qed

text \<open>
  Claim C8 as stated fails in two places. A request whose \<open>clientNonce\<close> is the empty
  string and whose \<open>masterKeyring\<close> is missing is answered with the message of the
  client nonce, a member that is not missing. And a nonce verification that resolves to
  \<open>false\<close> without throwing is not a failure for the handler, which does not read the
  value: the request is answered with status 200 and a signed certificate.
\<close>

theorem signCertificate_error_responses_counterexample:
  "clientNonce (example_request\<lparr>clientNonce := Some [], masterKeyring := None\<rparr>) = Some []
   \<and> masterKeyring (example_request\<lparr>clientNonce := Some [], masterKeyring := None\<rparr>) = None
   \<and> fst (signCertificate example_certifier_env
             (example_request\<lparr>clientNonce := Some [], masterKeyring := None\<rparr>))
       = Response 400 (ErrorBody ''error'' None ''Missing client nonce!'')
   \<and> certifierSignCheckArgs example_request = None
   \<and> verifyNonce rejecting_env ''AAB='' ''02subject'' = Inr False
   \<and> fst (signCertificate rejecting_env example_request)
       = Response 200 (CertificateBody example_certificate ''QkE='')"
  by (simp add: signCertificate_def certifierSignCheckArgs_def falsy_string_def example_request_def
      rejecting_env_def example_certifier_env_def issue_def example_certificate_def revocationTxid_def)

section \<open>Properties of the DID registry\<close>

subsection \<open>Segments and hex strings\<close>

lemma split_colon_nonempty: "split_colon s \<noteq> []"
  by (induction s) (auto split: list.splits)

lemma split_colon_no_colon: "CHR '':'' \<notin> set s \<Longrightarrow> split_colon s = [s]"
  by (induction s) auto

lemma split_colon_segment:
  "CHR '':'' \<notin> set a \<Longrightarrow> split_colon (a @ CHR '':'' # b) = a # split_colon b"
  by (induction a) auto

lemma length_split_colon: "length (split_colon s) = Suc (length (filter (\<lambda>c. c = CHR '':'') s))"
  by (induction s) (auto simp: split_colon_nonempty split: list.splits)

lemma hex_digits: "list_all (\<lambda>k. is_hex_char (digit_char k)) [0..<16]"
  by code_simp

lemma digit_char_hex: "is_hex_char (digit_char n)"
proof -
  have "n mod 16 \<in> set [0..<16]" by simp
  with hex_digits have "is_hex_char (digit_char (n mod 16))"
    unfolding list_all_iff by blast
  then show ?thesis by (simp add: digit_char_def)
qed

lemma length_toHex: "length (toHex bs) = 2 * length bs"
  by (induction bs) (simp_all add: toHex_def)

lemma toHex_hex: "c \<in> set (toHex bs) \<Longrightarrow> is_hex_char c"
  by (auto simp: toHex_def digit_char_hex)

lemma hex_no_colon: "is_hex_char c \<Longrightarrow> c \<noteq> CHR '':''"
  by (auto simp: is_hex_char_def)

lemma toHex_no_colon: "CHR '':'' \<notin> set (toHex bs)"
  using toHex_hex hex_no_colon by blast

lemma resolveDID_try_segments:
  "length (split_colon did) \<noteq> 4 \<Longrightarrow> resolveDID_try env this did = (Inl (Error ''Invalid DID format''), this)"
  by (auto simp: resolveDID_try_def split: list.splits)

lemma updateDID_try_segments:
  "length (split_colon did) \<noteq> 5 \<Longrightarrow> fst (updateDID_try env this did doc) = Inl (Error ''Invalid DID format'')"
  by (auto simp: updateDID_try_def split: list.splits)

lemma fst_updateDID:
  "fst (updateDID env this did doc) = fst (updateDID_try env this did doc)"
  by (simp add: updateDID_def split: prod.splits sum.splits)

lemma fst_resolveDID:
  "fst (resolveDID env this did) =
     (case fst (resolveDID_try env this did) of
        Inl error \<Rightarrow> Inl (Error (''Failed to resolve DID: '' @ message error))
      | Inr r \<Rightarrow> Inr r)"
  by (simp add: resolveDID_def split: prod.splits sum.splits)

subsection \<open>Malformed identifiers\<close>

text \<open>
  Claim C4. A DID string that does not have exactly four colon-separated segments makes
  \<open>resolveDID\<close> fail with the format error \<open>Invalid DID format\<close> (under the prefix that
  \<open>resolveDID\<close> puts before every error), and one that does not have exactly five makes
  \<open>updateDID\<close> fail with \<open>Invalid DID format\<close>. The number of segments is the number
  of colons plus one.
\<close>

theorem wrong_segment_count_is_format_error:
  "(length (split_colon did) \<noteq> 4 \<longrightarrow>
      fst (resolveDID env this did) = Inl (Error ''Failed to resolve DID: Invalid DID format''))
   \<and> (length (split_colon did) \<noteq> 5 \<longrightarrow>
      fst (updateDID env this did newDidDocument) = Inl (Error ''Invalid DID format''))
   \<and> length (split_colon did) = Suc (length (filter (\<lambda>c. c = CHR '':'') did))"
proof (intro conjI impI)
  assume "length (split_colon did) \<noteq> 4"
  from resolveDID_try_segments [OF this, of env this]
  show "fst (resolveDID env this did) = Inl (Error ''Failed to resolve DID: Invalid DID format'')"
    by (simp add: resolveDID_def)
next
  assume "length (split_colon did) \<noteq> 5"
  from updateDID_try_segments [OF this, of env this newDidDocument]
  show "fst (updateDID env this did newDidDocument) = Inl (Error ''Invalid DID format'')"
    by (simp add: fst_updateDID)
next
  show "length (split_colon did) = Suc (length (filter (\<lambda>c. c = CHR '':'') did))"
    by (rule length_split_colon)
qed

theorem wrong_segment_count_is_format_error_witness:
  "length (split_colon ''did:bsv:tm_did'') = 3
   \<and> fst (resolveDID example_registry_env example_registry ''did:bsv:tm_did'')
       = Inl (Error ''Failed to resolve DID: Invalid DID format'')
   \<and> fst (updateDID example_registry_env example_registry ''did:bsv:tm_did'' example_document)
       = Inl (Error ''Invalid DID format'')"
proof -
  have three: "length (split_colon ''did:bsv:tm_did'') = 3" by simp
  with wrong_segment_count_is_format_error
         [of "''did:bsv:tm_did''" example_registry_env example_registry example_document]
  show ?thesis by simp
qed

subsection \<open>What a successful createDID has done\<close>

lemma toHex_example: "toHex example_digest = example_serial"
  by (simp add: toHex_def example_digest_def example_serial_def digit_char_def)

lemma createDID_ok:
  assumes "createDID env this options = (Inr r, this')"
  shows "\<exists>script car.
           createWalletClient env = None
           \<and> pushDrop_lock env (pushDrop_args (serialNumberBytes env options)) = Inr script
           \<and> createAction env
                (create_action script (serialNumberBytes env options) (didDocument options)) = Inr car
           \<and> r = \<lparr>cr_did = created_did this (toHex (serialNumberBytes env options)),
                   cr_car = car,
                   cr_didDocument =
                     finalDidDocument (didDocument options)
                       (created_did this (toHex (serialNumberBytes env options)))
                       (publicKeyJWK options) (keyId options)\<rparr>
           \<and> this' =
                store_lookup env
                  (lookupData env this (toHex (serialNumberBytes env options)) car
                     (finalDidDocument (didDocument options)
                        (created_did this (toHex (serialNumberBytes env options)))
                        (publicKeyJWK options) (keyId options)))
                  (this\<lparr>walletClient := True,
                         ledger := ledger this
                           @ [create_action script (serialNumberBytes env options) (didDocument options)]\<rparr>)"
  using assms
  by (auto simp: createDID_def createDID_try_def Let_def created_did_def lookupData_def
      split: option.splits sum.splits prod.splits)

lemma createDID_run:
  assumes "createWalletClient env = None"
    and "pushDrop_lock env (pushDrop_args (serialNumberBytes env options)) = Inr script"
    and "createAction env
           (create_action script (serialNumberBytes env options) (didDocument options)) = Inr car"
  shows "createDID env this options =
           (Inr \<lparr>cr_did = created_did this (toHex (serialNumberBytes env options)),
                 cr_car = car,
                 cr_didDocument =
                   finalDidDocument (didDocument options)
                     (created_did this (toHex (serialNumberBytes env options)))
                     (publicKeyJWK options) (keyId options)\<rparr>,
            store_lookup env
              (lookupData env this (toHex (serialNumberBytes env options)) car
                 (finalDidDocument (didDocument options)
                    (created_did this (toHex (serialNumberBytes env options)))
                    (publicKeyJWK options) (keyId options)))
              (this\<lparr>walletClient := True,
                     ledger := ledger this
                       @ [create_action script (serialNumberBytes env options) (didDocument options)]\<rparr>))"
  using assms
  by (simp add: createDID_def createDID_try_def Let_def created_did_def lookupData_def)

lemma example_wallet_ready: "createWalletClient example_registry_env = None"
  by (simp add: createWalletClient_def example_registry_env_def)

lemma example_bytes: "serialNumberBytes example_registry_env options = example_digest"
  by (simp add: serialNumberBytes_def example_registry_env_def)

lemma example_createDID:
  "createDID example_registry_env this example_options =
           (Inr \<lparr>cr_did = created_did this example_serial,
                 cr_car = example_car,
                 cr_didDocument =
                   finalDidDocument example_document (created_did this example_serial)
                     (Some example_key) None\<rparr>,
            store_lookup example_registry_env
              (lookupData example_registry_env this example_serial example_car
                 (finalDidDocument example_document (created_did this example_serial)
                     (Some example_key) None))
              (this\<lparr>walletClient := True,
                     ledger := ledger this @ [create_action ''21ac'' example_digest example_document]\<rparr>))"
proof -
  have l: "pushDrop_lock example_registry_env
             (pushDrop_args (serialNumberBytes example_registry_env example_options)) = Inr ''21ac''"
    by (simp add: example_registry_env_def)
  have a: "createAction example_registry_env
             (create_action ''21ac'' (serialNumberBytes example_registry_env example_options)
                (didDocument example_options)) = Inr example_car"
    by (simp add: example_registry_env_def)
  have o: "didDocument example_options = example_document" "publicKeyJWK example_options = Some example_key"
    "keyId example_options = None"
    by (simp_all add: example_options_def)
  from createDID_run [OF example_wallet_ready l a, of this] show ?thesis
    by (simp add: example_bytes toHex_example o)
qed

lemma finalDidDocument_lists:
  "keyAgreement (finalDidDocument doc did pk kid) = []"
  "capabilityDelegation (finalDidDocument doc did pk kid) = []"
  "capabilityInvocation (finalDidDocument doc did pk kid) = []"
  "doc_id (finalDidDocument doc did pk kid) = did"
  "doc_other (finalDidDocument doc did pk kid) = doc_other doc"
  by (simp_all add: finalDidDocument_def Let_def split: option.splits)

lemma finalDidDocument_no_key:
  "verificationMethod (finalDidDocument doc did None kid) = []"
  "authentication (finalDidDocument doc did None kid) = []"
  "assertionMethod (finalDidDocument doc did None kid) = []"
  by (simp_all add: finalDidDocument_def Let_def)

lemma finalDidDocument_key:
  "verificationMethod (finalDidDocument doc did (Some key) kid) =
     [\<lparr>vm_id = (case truthy_keyId kid of Some k \<Rightarrow> k | None \<Rightarrow> did @ ''#key-1''),
       vm_type = EcdsaSecp256k1VerificationKey2019, vm_controller = did, publicKeyJwk = key\<rparr>]"
  "authentication (finalDidDocument doc did (Some key) kid) =
     [MethodId (case truthy_keyId kid of Some k \<Rightarrow> k | None \<Rightarrow> did @ ''#key-1'')]"
  "assertionMethod (finalDidDocument doc did (Some key) kid) =
     [MethodId (case truthy_keyId kid of Some k \<Rightarrow> k | None \<Rightarrow> did @ ''#key-1'')]"
  by (simp_all add: finalDidDocument_def Let_def split: option.splits)

lemma store_lookup_failed:
  assumes "db this = Some did_lookups" "insertOne_error env record = Some dbError"
  shows "store_lookup env record this =
           this\<lparr>console := console this
              @ [ConsoleError ''[BsvOverlayRegistry] Error storing DID lookup in MongoDB:''
                   (Some (ErrorArg dbError))]\<rparr>"
  using assms by (simp add: store_lookup_def console_error_def)

lemma store_lookup_written:
  assumes "db this = Some did_lookups" "db (store_lookup env record this) = Some (did_lookups @ [rec])"
  shows "rec = record"
  using assms by (simp add: store_lookup_def console_error_def split: option.splits)

subsection \<open>The identifier\<close>

text \<open>
  Claim C5. The serial number of a created DID is the SHA-256 digest of the JSON text of
  the document together with the time stamp and the random nonce, and the DID returned is
  \<open>did:bsv:\<close>, the topic, a colon and the hex encoding of that digest, which is 64
  hex digits long for the 32 bytes of a SHA-256 digest.
\<close>

theorem createDID_identifier:
  assumes "createDID env this options = (Inr r, this')"
    and "length (sha256 env (stringify_unique env (didDocument options) (date_now env) (random_nonce env)))
           = 32"
  shows "\<exists>serial.
           serial = toHex (sha256 env
                      (stringify_unique env (didDocument options) (date_now env) (random_nonce env)))
           \<and> cr_did r = ''did:bsv:'' @ topic this @ '':'' @ serial
           \<and> length serial = 64
           \<and> (\<forall>c \<in> set serial. is_hex_char c)"
proof -
  from createDID_ok [OF assms(1)]
  have "cr_did r = created_did this (toHex (serialNumberBytes env options))" by auto
  then show ?thesis
    using assms(2) by (simp add: created_did_def serialNumberBytes_def length_toHex toHex_hex)
qed

theorem createDID_identifier_witness:
  "createDID example_registry_env example_registry example_options
     = (Inr \<lparr>cr_did = ''did:bsv:tm_did:9f86d081884c7d659a2feaa0c55ad015a3bf4f1b2b0b822cd15d6c15b0f00a08'',
             cr_car = example_car,
             cr_didDocument = finalDidDocument example_document
               ''did:bsv:tm_did:9f86d081884c7d659a2feaa0c55ad015a3bf4f1b2b0b822cd15d6c15b0f00a08''
               (Some example_key) None\<rparr>,
        snd (createDID example_registry_env example_registry example_options))
   \<and> length (sha256 example_registry_env
        (stringify_unique example_registry_env (didDocument example_options)
           (date_now example_registry_env) (random_nonce example_registry_env))) = 32
   \<and> length ''9f86d081884c7d659a2feaa0c55ad015a3bf4f1b2b0b822cd15d6c15b0f00a08'' = 64
   \<and> list_all is_hex_char ''9f86d081884c7d659a2feaa0c55ad015a3bf4f1b2b0b822cd15d6c15b0f00a08''"
proof -
  have run: "createDID example_registry_env example_registry example_options
     = (Inr \<lparr>cr_did = ''did:bsv:tm_did:9f86d081884c7d659a2feaa0c55ad015a3bf4f1b2b0b822cd15d6c15b0f00a08'',
             cr_car = example_car,
             cr_didDocument = finalDidDocument example_document
               ''did:bsv:tm_did:9f86d081884c7d659a2feaa0c55ad015a3bf4f1b2b0b822cd15d6c15b0f00a08''
               (Some example_key) None\<rparr>,
        snd (createDID example_registry_env example_registry example_options))"
    by (simp add: example_createDID created_did_def example_registry_def example_serial_def)
  have len: "length (sha256 example_registry_env
        (stringify_unique example_registry_env (didDocument example_options)
           (date_now example_registry_env) (random_nonce example_registry_env))) = 32"
    by (simp add: example_registry_env_def example_digest_def)
  have hex: "toHex (sha256 example_registry_env
        (stringify_unique example_registry_env (didDocument example_options)
           (date_now example_registry_env) (random_nonce example_registry_env)))
      = ''9f86d081884c7d659a2feaa0c55ad015a3bf4f1b2b0b822cd15d6c15b0f00a08''"
    using toHex_example by (simp add: example_registry_env_def example_serial_def)
  from createDID_identifier [OF run len] hex run len show ?thesis
    by (simp add: list_all_iff)
qed

subsection \<open>The lists of the final document\<close>

text \<open>
  Claim C10. In the document that \<open>createDID\<close> returns, \<open>keyAgreement\<close>,
  \<open>capabilityDelegation\<close> and \<open>capabilityInvocation\<close> are empty, whatever the input
  document held. \<open>verificationMethod\<close>, \<open>authentication\<close> and \<open>assertionMethod\<close> are
  empty without a public key, and with one each holds exactly one entry, built from the
  key, the DID and the key id alone.
\<close>

theorem createDID_resets_key_lists:
  assumes "createDID env this options = (Inr r, this')"
  shows "keyAgreement (cr_didDocument r) = []
       \<and> capabilityDelegation (cr_didDocument r) = []
       \<and> capabilityInvocation (cr_didDocument r) = []
       \<and> (publicKeyJWK options = None \<longrightarrow>
            verificationMethod (cr_didDocument r) = []
            \<and> authentication (cr_didDocument r) = []
            \<and> assertionMethod (cr_didDocument r) = [])
       \<and> (\<forall>key. publicKeyJWK options = Some key \<longrightarrow>
            verificationMethod (cr_didDocument r) =
              [\<lparr>vm_id = (case truthy_keyId (keyId options) of
                           Some k \<Rightarrow> k | None \<Rightarrow> cr_did r @ ''#key-1''),
                vm_type = EcdsaSecp256k1VerificationKey2019,
                vm_controller = cr_did r, publicKeyJwk = key\<rparr>]
            \<and> authentication (cr_didDocument r) =
              [MethodId (case truthy_keyId (keyId options) of
                           Some k \<Rightarrow> k | None \<Rightarrow> cr_did r @ ''#key-1'')]
            \<and> assertionMethod (cr_didDocument r) =
              [MethodId (case truthy_keyId (keyId options) of
                           Some k \<Rightarrow> k | None \<Rightarrow> cr_did r @ ''#key-1'')])
       \<and> (length (verificationMethod (cr_didDocument r)) = (if publicKeyJWK options = None then 0 else 1))
       \<and> (length (authentication (cr_didDocument r)) = (if publicKeyJWK options = None then 0 else 1))
       \<and> (length (assertionMethod (cr_didDocument r)) = (if publicKeyJWK options = None then 0 else 1))"
proof -
  from createDID_ok [OF assms]
  have r: "cr_didDocument r =
             finalDidDocument (didDocument options) (cr_did r) (publicKeyJWK options) (keyId options)"
    by auto
  show ?thesis
  proof (cases "publicKeyJWK options")
    case None
    then show ?thesis
      by (simp add: r finalDidDocument_lists finalDidDocument_no_key)
  next
    case (Some key)
    then show ?thesis
      by (simp add: r finalDidDocument_lists finalDidDocument_key)
  qed
qed

theorem createDID_resets_key_lists_witness:
  "createDID example_registry_env example_registry example_options
     = (Inr \<lparr>cr_did = created_did example_registry example_serial,
             cr_car = example_car,
             cr_didDocument = finalDidDocument example_document
               (created_did example_registry example_serial) (Some example_key) None\<rparr>,
        snd (createDID example_registry_env example_registry example_options))
   \<and> keyAgreement example_document = [MethodId ''#old'']
   \<and> length (verificationMethod example_document) = 1
   \<and> keyAgreement (finalDidDocument example_document
               (created_did example_registry example_serial) (Some example_key) None) = []
   \<and> verificationMethod (finalDidDocument example_document
               (created_did example_registry example_serial) (Some example_key) None)
       = [\<lparr>vm_id = created_did example_registry example_serial @ ''#key-1'',
           vm_type = EcdsaSecp256k1VerificationKey2019,
           vm_controller = created_did example_registry example_serial,
           publicKeyJwk = example_key\<rparr>]
   \<and> createDID example_registry_env example_registry (example_options\<lparr>publicKeyJWK := None\<rparr>)
     = (Inr \<lparr>cr_did = created_did example_registry example_serial,
             cr_car = example_car,
             cr_didDocument = finalDidDocument example_document
               (created_did example_registry example_serial) None None\<rparr>,
        snd (createDID example_registry_env example_registry (example_options\<lparr>publicKeyJWK := None\<rparr>)))
   \<and> verificationMethod (finalDidDocument example_document
               (created_did example_registry example_serial) None None) = []"
proof -
  have run: "createDID example_registry_env example_registry example_options
     = (Inr \<lparr>cr_did = created_did example_registry example_serial,
             cr_car = example_car,
             cr_didDocument = finalDidDocument example_document
               (created_did example_registry example_serial) (Some example_key) None\<rparr>,
        snd (createDID example_registry_env example_registry example_options))"
    by (simp add: example_createDID)
  have l: "pushDrop_lock example_registry_env
             (pushDrop_args (serialNumberBytes example_registry_env (example_options\<lparr>publicKeyJWK := None\<rparr>)))
           = Inr ''21ac''"
    by (simp add: example_registry_env_def)
  have a: "createAction example_registry_env
             (create_action ''21ac''
                (serialNumberBytes example_registry_env (example_options\<lparr>publicKeyJWK := None\<rparr>))
                (didDocument (example_options\<lparr>publicKeyJWK := None\<rparr>))) = Inr example_car"
    by (simp add: example_registry_env_def)
  have run': "createDID example_registry_env example_registry (example_options\<lparr>publicKeyJWK := None\<rparr>)
     = (Inr \<lparr>cr_did = created_did example_registry example_serial,
             cr_car = example_car,
             cr_didDocument = finalDidDocument example_document
               (created_did example_registry example_serial) None None\<rparr>,
        snd (createDID example_registry_env example_registry (example_options\<lparr>publicKeyJWK := None\<rparr>)))"
    using createDID_run [OF example_wallet_ready l a, of example_registry]
    by (simp add: example_bytes toHex_example example_options_def)
  have k: "publicKeyJWK example_options = Some example_key" "keyId example_options = None"
    "publicKeyJWK (example_options\<lparr>publicKeyJWK := None\<rparr>) = None"
    by (simp_all add: example_options_def)
  have i: "keyAgreement example_document = [MethodId ''#old'']"
    "length (verificationMethod example_document) = 1"
    by (simp_all add: example_document_def)
  from createDID_resets_key_lists [OF run] createDID_resets_key_lists [OF run'] k i run run'
  show ?thesis by (simp add: truthy_keyId_def)
qed

subsection \<open>A failed write to the lookup index\<close>

text \<open>
  Claim C6. When the wallet has created the anchoring action and the write of the lookup
  record fails, \<open>createDID\<close> still returns the result \<open>{did, car, didDocument}\<close>: the
  error is printed to the error console and nothing is thrown, the action stays in the
  ledger, and the collection is unchanged.
\<close>

theorem createDID_index_failure_swallowed:
  assumes wallet: "createWalletClient env = None"
    and lock: "pushDrop_lock env (pushDrop_args (serialNumberBytes env options)) = Inr script"
    and anchor: "createAction env
           (create_action script (serialNumberBytes env options) (didDocument options)) = Inr car"
    and index: "db this = Some did_lookups"
    and failure: "insertOne_error env
           (lookupData env this (toHex (serialNumberBytes env options)) car
              (finalDidDocument (didDocument options)
                 (created_did this (toHex (serialNumberBytes env options)))
                 (publicKeyJWK options) (keyId options))) = Some dbError"
  shows "createDID env this options =
           (Inr \<lparr>cr_did = created_did this (toHex (serialNumberBytes env options)),
                 cr_car = car,
                 cr_didDocument =
                   finalDidDocument (didDocument options)
                     (created_did this (toHex (serialNumberBytes env options)))
                     (publicKeyJWK options) (keyId options)\<rparr>,
            this\<lparr>walletClient := True,
                 ledger := ledger this
                   @ [create_action script (serialNumberBytes env options) (didDocument options)],
                 console := console this
                   @ [ConsoleError ''[BsvOverlayRegistry] Error storing DID lookup in MongoDB:''
                        (Some (ErrorArg dbError))]\<rparr>)"
proof -
  let ?anchored = "this\<lparr>walletClient := True,
                 ledger := ledger this
                   @ [create_action script (serialNumberBytes env options) (didDocument options)]\<rparr>"
  have "db ?anchored = Some did_lookups" using index by simp
  from store_lookup_failed [OF this failure]
  show ?thesis
    by (simp add: createDID_run [OF wallet lock anchor])
qed

theorem createDID_index_failure_swallowed_witness:
  "createDID failing_index_env example_registry example_options =
     (Inr \<lparr>cr_did = created_did example_registry example_serial,
           cr_car = example_car,
           cr_didDocument =
             finalDidDocument example_document (created_did example_registry example_serial)
               (Some example_key) None\<rparr>,
      example_registry
        \<lparr>walletClient := True,
         ledger := [create_action ''21ac'' example_digest example_document],
         console := [ConsoleError ''[BsvOverlayRegistry] Error storing DID lookup in MongoDB:''
                        (Some (ErrorArg (Error ''MongoNetworkError'')))]\<rparr>)"
proof -
  have wallet: "createWalletClient failing_index_env = None"
    by (simp add: createWalletClient_def failing_index_env_def example_registry_env_def)
  have bytes: "serialNumberBytes failing_index_env example_options = example_digest"
    by (simp add: serialNumberBytes_def failing_index_env_def example_registry_env_def)
  have lock: "pushDrop_lock failing_index_env
                (pushDrop_args (serialNumberBytes failing_index_env example_options)) = Inr ''21ac''"
    by (simp add: failing_index_env_def example_registry_env_def)
  have anchor: "createAction failing_index_env
                  (create_action ''21ac'' (serialNumberBytes failing_index_env example_options)
                     (didDocument example_options)) = Inr example_car"
    by (simp add: failing_index_env_def example_registry_env_def)
  have index: "db example_registry = Some []"
    by (simp add: example_registry_def)
  have failure: "insertOne_error failing_index_env
           (lookupData failing_index_env example_registry
              (toHex (serialNumberBytes failing_index_env example_options)) example_car
              (finalDidDocument (didDocument example_options)
                 (created_did example_registry (toHex (serialNumberBytes failing_index_env example_options)))
                 (publicKeyJWK example_options) (keyId example_options)))
           = Some (Error ''MongoNetworkError'')"
    by (simp add: failing_index_env_def)
  note run = createDID_index_failure_swallowed [OF wallet lock anchor index failure]
  have opts: "didDocument example_options = example_document"
    "publicKeyJWK example_options = Some example_key" "keyId example_options = None"
    by (simp_all add: example_options_def)
  have reg: "ledger example_registry = []" "console example_registry = []"
    by (simp_all add: example_registry_def)
  from run show ?thesis
    unfolding bytes toHex_example opts reg by simp
qed

subsection \<open>Resolving a created DID\<close>

lemma split_created_did:
  assumes "CHR '':'' \<notin> set (topic this)"
  shows "split_colon (created_did this (toHex bytes)) = [''did'', ''bsv'', topic this, toHex bytes]"
proof -
  have "created_did this (toHex bytes)
          = ''did'' @ CHR '':'' # (''bsv'' @ CHR '':'' # (topic this @ CHR '':'' # toHex bytes))"
    by (simp add: created_did_def)
  then show ?thesis
    using assms by (simp add: split_colon_segment split_colon_no_colon toHex_no_colon)
qed

lemma find_append_None: "find P xs = None \<Longrightarrow> find P (xs @ ys) = find P ys"
  by (induction xs) (auto split: if_splits)

lemma findOne_appended:
  assumes "findOne did_lookups serial = None" "lr_serialNumber record = serial"
  shows "findOne (did_lookups @ [record]) serial = Some record"
  using assms by (simp add: findOne_def find_append_None)

lemma resolveDID_cached:
  assumes "split_colon did = [''did'', ''bsv'', tpc, serial]"
    and "db this = Some did_lookups"
    and "findOne_error env serial = None"
    and "findOne did_lookups serial = Some didLookup"
    and "lr_didDocument didLookup = Some doc"
  shows "resolveDID env this did = (Inr (Some (Document doc)), this)"
  using assms by (simp add: resolveDID_def resolveDID_try_def)

text \<open>
  Claim C3, amended. Let \<open>createDID\<close> succeed on a registry whose topic contains no
  colon, with a database into which the lookup record was written and which held no
  earlier record under the new serial number. Then \<open>resolveDID\<close> on the returned DID,
  with the query to the database succeeding, returns the document that \<open>createDID\<close>
  returned; its \<open>id\<close> is the DID, and its verification-method list has exactly one
  entry when a public key was supplied.
\<close>

theorem createDID_then_resolveDID:
  assumes created: "createDID env this options = (Inr r, this')"
    and index: "db this = Some did_lookups"
    and written: "db this' = Some (did_lookups @ [record])"
    and fresh: "findOne did_lookups (toHex (serialNumberBytes env options)) = None"
    and segment: "CHR '':'' \<notin> set (topic this)"
    and query: "findOne_error env' (toHex (serialNumberBytes env options)) = None"
  shows "resolveDID env' this' (cr_did r) = (Inr (Some (Document (cr_didDocument r))), this')
       \<and> doc_id (cr_didDocument r) = cr_did r
       \<and> (publicKeyJWK options \<noteq> None \<longrightarrow> length (verificationMethod (cr_didDocument r)) = 1)"
proof -
  let ?serial = "toHex (serialNumberBytes env options)"
  let ?did = "created_did this ?serial"
  let ?final = "finalDidDocument (didDocument options) ?did (publicKeyJWK options) (keyId options)"
  from createDID_ok [OF created] obtain script car where
    r: "r = \<lparr>cr_did = ?did, cr_car = car, cr_didDocument = ?final\<rparr>" and
    s: "this' = store_lookup env (lookupData env this ?serial car ?final)
                  (this\<lparr>walletClient := True,
                         ledger := ledger this
                           @ [create_action script (serialNumberBytes env options) (didDocument options)]\<rparr>)"
    by blast
  let ?anchored = "this\<lparr>walletClient := True,
                         ledger := ledger this
                           @ [create_action script (serialNumberBytes env options) (didDocument options)]\<rparr>"
  have "db ?anchored = Some did_lookups" using index by simp
  from store_lookup_written [OF this written [unfolded s]]
  have rec: "record = lookupData env this ?serial car ?final" .
  have found: "findOne (did_lookups @ [record]) ?serial = Some record"
    using fresh rec by (intro findOne_appended) (simp_all add: lookupData_def)
  have cached: "lr_didDocument record = Some ?final"
    using rec by (simp add: lookupData_def)
  have tpc: "CHR '':'' \<notin> set (topic this)" by (rule segment)
  have "resolveDID env' this' ?did = (Inr (Some (Document ?final)), this')"
    using split_created_did [OF tpc] written query found cached by (rule resolveDID_cached)
  moreover have "doc_id ?final = ?did"
    by (simp add: finalDidDocument_lists)
  moreover have "publicKeyJWK options \<noteq> None \<longrightarrow> length (verificationMethod ?final) = 1"
    by (auto simp: finalDidDocument_key)
  ultimately show ?thesis
    by (simp add: r)
qed

lemma example_created_did: "created_did example_registry example_serial = example_did"
  by (simp add: created_did_def example_registry_def example_serial_def example_did_def)

lemma example_createDID_run:
  "createDID example_registry_env example_registry example_options =
     (Inr \<lparr>cr_did = example_did, cr_car = example_car, cr_didDocument = example_final\<rparr>,
      example_created)"
proof -
  have "store_lookup example_registry_env
          (lookupData example_registry_env example_registry example_serial example_car example_final)
          (example_registry\<lparr>walletClient := True,
             ledger := ledger example_registry @ [create_action ''21ac'' example_digest example_document]\<rparr>)
        = example_created"
    by (simp add: store_lookup_def example_registry_env_def example_registry_def lookupData_def
        example_created_def example_record_def example_car_def)
  then show ?thesis
    by (simp add: example_createDID example_created_did example_final_def)
qed

theorem createDID_then_resolveDID_witness:
  "createDID example_registry_env example_registry example_options =
     (Inr \<lparr>cr_did = example_did, cr_car = example_car, cr_didDocument = example_final\<rparr>,
      example_created)
   \<and> db example_registry = Some []
   \<and> db example_created = Some [example_record]
   \<and> CHR '':'' \<notin> set (topic example_registry)
   \<and> resolveDID example_registry_env example_created example_did
       = (Inr (Some (Document example_final)), example_created)
   \<and> doc_id example_final = example_did
   \<and> length (verificationMethod example_final) = 1"
proof -
  have index: "db example_registry = Some []"
    by (simp add: example_registry_def)
  have written: "db example_created = Some ([] @ [example_record])"
    by (simp add: example_created_def)
  have fresh: "findOne [] (toHex (serialNumberBytes example_registry_env example_options)) = None"
    by (simp add: findOne_def)
  have segment: "CHR '':'' \<notin> set (topic example_registry)"
    by (simp add: example_registry_def)
  have key: "publicKeyJWK example_options \<noteq> None"
    by (simp add: example_options_def)
  have query: "findOne_error example_registry_env
                 (toHex (serialNumberBytes example_registry_env example_options)) = None"
    by (simp add: example_registry_env_def)
  from createDID_then_resolveDID [OF example_createDID_run index written fresh segment query] key
  have "resolveDID example_registry_env example_created example_did
          = (Inr (Some (Document example_final)), example_created)
        \<and> doc_id example_final = example_did
        \<and> length (verificationMethod example_final) = 1"
    by simp
  with example_createDID_run index written segment show ?thesis
    by simp
qed

lemma colon_createDID_run:
  "createDID example_registry_env colon_registry example_options =
     (Inr \<lparr>cr_did = colon_did, cr_car = example_car,
           cr_didDocument = finalDidDocument example_document colon_did (Some example_key) None\<rparr>,
      colon_created)"
proof -
  have did: "created_did colon_registry example_serial = colon_did"
    by (simp add: created_did_def colon_registry_def example_registry_def example_serial_def colon_did_def)
  have "store_lookup example_registry_env
          (lookupData example_registry_env colon_registry example_serial example_car
             (finalDidDocument example_document colon_did (Some example_key) None))
          (colon_registry\<lparr>walletClient := True,
             ledger := ledger colon_registry @ [create_action ''21ac'' example_digest example_document]\<rparr>)
        = colon_created"
    by (simp add: store_lookup_def example_registry_env_def example_registry_def lookupData_def
        colon_created_def colon_registry_def example_car_def)
  then show ?thesis
    by (simp add: example_createDID did)
qed

text \<open>
  Claim C3 as stated fails for a topic that contains a colon: the DID that \<open>createDID\<close>
  returns then has five segments, and \<open>resolveDID\<close> rejects it as malformed although the
  lookup record was written.
\<close>

theorem createDID_then_resolveDID_counterexample:
  "createDID example_registry_env colon_registry example_options =
     (Inr \<lparr>cr_did = colon_did, cr_car = example_car,
           cr_didDocument = finalDidDocument example_document colon_did (Some example_key) None\<rparr>,
      colon_created)
   \<and> db colon_registry = Some []
   \<and> db colon_created \<noteq> Some []
   \<and> fst (resolveDID example_registry_env colon_created colon_did)
       = Inl (Error ''Failed to resolve DID: Invalid DID format'')"
proof -
  have "length (split_colon colon_did) \<noteq> 4"
    by (simp add: colon_did_def)
  then have "resolveDID_try example_registry_env colon_created colon_did
               = (Inl (Error ''Invalid DID format''), colon_created)"
    by (rule resolveDID_try_segments)
  then have "fst (resolveDID example_registry_env colon_created colon_did)
       = Inl (Error ''Failed to resolve DID: Invalid DID format'')"
    by (simp add: fst_resolveDID)
  moreover have "db colon_registry = Some []" "db colon_created \<noteq> Some []"
    by (simp_all add: colon_registry_def colon_created_def example_registry_def)
  ultimately show ?thesis
    using colon_createDID_run by simp
qed

text \<open>
  The query returns the first record under a serial number, so an earlier record under
  the same serial number would be the one resolved.
\<close>

lemma resolveDID_earlier_record_first:
  assumes "split_colon did = [''did'', ''bsv'', tpc, serial]"
    and "db this = Some (earlier # later)"
    and "findOne_error env serial = None"
    and "lr_serialNumber earlier = serial"
    and "lr_didDocument earlier = Some doc"
  shows "resolveDID env this did = (Inr (Some (Document doc)), this)"
proof -
  have "findOne (earlier # later) serial = Some earlier"
    using assms(4) by (simp add: findOne_def)
  with assms(1,2,3) show ?thesis
    using assms(5) by (rule resolveDID_cached)
qed

subsection \<open>The update transaction\<close>

lemma buildOpReturnScript_ok:
  "buildOpReturnScript env this items = (Inr script, this') \<longleftrightarrow>
     script_toHex env ([OpCode 0, OpCode 106] @ map (\<lambda>item. Bin (utf8 env item)) items) = Inr script
     \<and> this' = this"
  by (auto simp: buildOpReturnScript_def split: sum.splits)

lemma updateDID_ok:
  "updateDID env this did doc = (Inr r, this') \<longleftrightarrow> updateDID_try env this did doc = (Inr r, this')"
  by (auto simp: updateDID_def split: prod.splits sum.splits)

lemma updateDID_try_ok:
  assumes "split_colon did = [p0, p1, p2, previousTxid, p4]"
  shows "updateDID_try env this did doc = (Inr r, this') \<longleftrightarrow>
     (\<exists>script result.
        script_toHex env
          ([OpCode 0, OpCode 106]
             @ map (\<lambda>item. Bin (utf8 env item))
                 [topic this, ''UPDATE'', previousTxid, number_string env (parseInt env p4),
                  stringify env doc]) = Inr script
        \<and> walletClient this
        \<and> createAction env
             (updateActionArgs this previousTxid (number_string env (parseInt env p4)) script)
            = Inr result
        \<and> r = \<lparr>ur_did = ''did:bsv:'' @ topic this @ '':'' @ car_txid result @ '':1'',
                ur_txid = car_txid result\<rparr>
        \<and> this' = this\<lparr>ledger := ledger this
             @ [updateActionArgs this previousTxid (number_string env (parseInt env p4)) script]\<rparr>)"
  using assms
  by (auto simp: updateDID_try_def Let_def buildOpReturnScript_def split: sum.splits prod.splits if_splits)

text \<open>
  Claim C7. For a DID of five segments, \<open>updateDID\<close> succeeds exactly when the
  \<open>OP_RETURN\<close> script is built, the wallet client is assigned and the wallet creates
  the action; it then returns \<open>did:bsv:<topic>:<txid>:1\<close> for the transaction id of the
  result and has asked for one action. That action has exactly one input, whose outpoint
  is made of the fourth segment and the parsed fifth segment, and exactly two outputs:
  the output of zero satoshis whose script carries the topic, \<open>UPDATE\<close>, the previous
  outpoint and the new document, and the identifier output of one satoshi, locked by
  the pay-to-public-key-hash script of the zero hash, with the key-derivation
  instructions \<open>did-identifier\<close> for \<open>self\<close>.
\<close>

theorem updateDID_transaction:
  assumes segments: "split_colon did = [p0, p1, p2, previousTxid, p4]"
  shows "(\<forall>r this'.
           updateDID env this did newDidDocument = (Inr r, this') \<longleftrightarrow>
             (\<exists>script result.
                script_toHex env
                  ([OpCode 0, OpCode 106]
                     @ map (\<lambda>item. Bin (utf8 env item))
                         [topic this, ''UPDATE'', previousTxid, number_string env (parseInt env p4),
                          stringify env newDidDocument]) = Inr script
                \<and> walletClient this
                \<and> createAction env
                     (updateActionArgs this previousTxid (number_string env (parseInt env p4)) script)
                    = Inr result
                \<and> r = \<lparr>ur_did = ''did:bsv:'' @ topic this @ '':'' @ car_txid result @ '':1'',
                        ur_txid = car_txid result\<rparr>
                \<and> this' = this\<lparr>ledger := ledger this
                     @ [updateActionArgs this previousTxid (number_string env (parseInt env p4)) script]\<rparr>))
       \<and> (\<forall>script.
             inputs (updateActionArgs this previousTxid (number_string env (parseInt env p4)) script)
               = [\<lparr>outpoint = previousTxid @ '':'' @ number_string env (parseInt env p4),
                   inputDescription = ''Previous DID output''\<rparr>]
             \<and> length (outputs (updateActionArgs this previousTxid
                                   (number_string env (parseInt env p4)) script)) = 2
             \<and> map lockingScript (outputs (updateActionArgs this previousTxid
                                   (number_string env (parseInt env p4)) script))
                 = [script, identifier_script]
             \<and> map satoshis (outputs (updateActionArgs this previousTxid
                                   (number_string env (parseInt env p4)) script)) = [0, 1]
             \<and> updateActionArgs this previousTxid (number_string env (parseInt env p4)) script
                 = \<lparr>description = ''Update DID on BSV overlay (topic: '' @ topic this @ '')'',
                    inputs = [\<lparr>outpoint = previousTxid @ '':'' @ number_string env (parseInt env p4),
                               inputDescription = ''Previous DID output''\<rparr>],
                    outputs =
                      [\<lparr>lockingScript = script, satoshis = 0,
                        outputDescription = ''Updated DID Document'',
                        basket = None, customInstructions = None\<rparr>,
                       \<lparr>lockingScript = ''76a914000000000000000000000000000000000000000088ac'',
                        satoshis = 1,
                        outputDescription = ''Updated DID identifier'',
                        basket = None,
                        customInstructions = Some (KeyDerivation ''did-identifier'' ''self'')\<rparr>],
                    randomizeOutputs = None,
                    labels = [''quarkid'', ''did'', ''update'']\<rparr>)"
proof -
  have zeros: "concat (replicate 20 ''00'') = ''0000000000000000000000000000000000000000''"
    by code_simp
  have script: "identifier_script = ''76a914000000000000000000000000000000000000000088ac''"
    by (simp add: identifier_script_def zeros)
  have shape: "inputs (updateActionArgs this previousTxid vout script)
               = [\<lparr>outpoint = previousTxid @ '':'' @ vout, inputDescription = ''Previous DID output''\<rparr>]
             \<and> length (outputs (updateActionArgs this previousTxid vout script)) = 2
             \<and> map lockingScript (outputs (updateActionArgs this previousTxid vout script))
                 = [script, identifier_script]
             \<and> map satoshis (outputs (updateActionArgs this previousTxid vout script)) = [0, 1]"
    for vout script
    by (simp add: updateActionArgs_def)
  have whole: "updateActionArgs this previousTxid vout script
                 = \<lparr>description = ''Update DID on BSV overlay (topic: '' @ topic this @ '')'',
                    inputs = [\<lparr>outpoint = previousTxid @ '':'' @ vout,
                               inputDescription = ''Previous DID output''\<rparr>],
                    outputs =
                      [\<lparr>lockingScript = script, satoshis = 0,
                        outputDescription = ''Updated DID Document'',
                        basket = None, customInstructions = None\<rparr>,
                       \<lparr>lockingScript = ''76a914000000000000000000000000000000000000000088ac'',
                        satoshis = 1,
                        outputDescription = ''Updated DID identifier'',
                        basket = None,
                        customInstructions = Some (KeyDerivation ''did-identifier'' ''self'')\<rparr>],
                    randomizeOutputs = None,
                    labels = [''quarkid'', ''did'', ''update'']\<rparr>"
    for vout script
    unfolding updateActionArgs_def script by (rule refl)
  have run: "updateDID env this did newDidDocument = (Inr r, this') \<longleftrightarrow>
             (\<exists>script result.
                script_toHex env
                  ([OpCode 0, OpCode 106]
                     @ map (\<lambda>item. Bin (utf8 env item))
                         [topic this, ''UPDATE'', previousTxid, number_string env (parseInt env p4),
                          stringify env newDidDocument]) = Inr script
                \<and> walletClient this
                \<and> createAction env
                     (updateActionArgs this previousTxid (number_string env (parseInt env p4)) script)
                    = Inr result
                \<and> r = \<lparr>ur_did = ''did:bsv:'' @ topic this @ '':'' @ car_txid result @ '':1'',
                        ur_txid = car_txid result\<rparr>
                \<and> this' = this\<lparr>ledger := ledger this
                     @ [updateActionArgs this previousTxid (number_string env (parseInt env p4)) script]\<rparr>)"
    for r this'
    using updateDID_try_ok [OF segments, of env this newDidDocument] by (simp add: updateDID_ok)
  from run shape whole show ?thesis
    by blast
qed

theorem updateDID_transaction_witness:
  "split_colon ''did:bsv:tm_did:cc33:0'' = [''did'', ''bsv'', ''tm_did'', ''cc33'', ''0'']
   \<and> updateDID example_registry_env example_created ''did:bsv:tm_did:cc33:0'' example_document
       = (Inr \<lparr>ur_did = ''did:bsv:tm_did:aa11:1'', ur_txid = ''aa11''\<rparr>,
          example_created\<lparr>ledger := ledger example_created
             @ [updateActionArgs example_created ''cc33'' ''0'' ''006a'']\<rparr>)
   \<and> updateActionArgs example_created ''cc33'' ''0'' ''006a''
       = \<lparr>description = ''Update DID on BSV overlay (topic: tm_did)'',
          inputs = [\<lparr>outpoint = ''cc33:0'', inputDescription = ''Previous DID output''\<rparr>],
          outputs =
            [\<lparr>lockingScript = ''006a'', satoshis = 0,
              outputDescription = ''Updated DID Document'',
              basket = None, customInstructions = None\<rparr>,
             \<lparr>lockingScript = ''76a914000000000000000000000000000000000000000088ac'',
              satoshis = 1,
              outputDescription = ''Updated DID identifier'',
              basket = None,
              customInstructions = Some (KeyDerivation ''did-identifier'' ''self'')\<rparr>],
          randomizeOutputs = None,
          labels = [''quarkid'', ''did'', ''update'']\<rparr>"
proof -
  have segments: "split_colon ''did:bsv:tm_did:cc33:0'' = [''did'', ''bsv'', ''tm_did'', ''cc33'', ''0'']"
    by simp
  have vout: "number_string example_registry_env (parseInt example_registry_env ''0'') = ''0''"
    by (simp add: example_registry_env_def digit_char_def)
  have script: "script_toHex example_registry_env chunks = Inr ''006a''" for chunks
    by (simp add: example_registry_env_def)
  have wallet: "walletClient example_created" "topic example_created = ''tm_did''"
    by (simp_all add: example_created_def example_registry_def)
  have action: "createAction example_registry_env args = Inr example_car" for args
    by (simp add: example_registry_env_def)
  have txid: "car_txid example_car = ''aa11''"
    by (simp add: example_car_def)
  note main = updateDID_transaction [OF segments, of example_registry_env example_created example_document,
                unfolded vout]
  from main have "updateDID example_registry_env example_created ''did:bsv:tm_did:cc33:0'' example_document
       = (Inr \<lparr>ur_did = ''did:bsv:tm_did:aa11:1'', ur_txid = ''aa11''\<rparr>,
          example_created\<lparr>ledger := ledger example_created
             @ [updateActionArgs example_created ''cc33'' ''0'' ''006a'']\<rparr>)"
    by (simp add: script wallet action txid)
  moreover from main have "updateActionArgs example_created ''cc33'' ''0'' ''006a''
       = \<lparr>description = ''Update DID on BSV overlay (topic: '' @ topic example_created @ '')'',
          inputs = [\<lparr>outpoint = ''cc33'' @ '':'' @ ''0'', inputDescription = ''Previous DID output''\<rparr>],
          outputs =
            [\<lparr>lockingScript = ''006a'', satoshis = 0,
              outputDescription = ''Updated DID Document'',
              basket = None, customInstructions = None\<rparr>,
             \<lparr>lockingScript = ''76a914000000000000000000000000000000000000000088ac'',
              satoshis = 1,
              outputDescription = ''Updated DID identifier'',
              basket = None,
              customInstructions = Some (KeyDerivation ''did-identifier'' ''self'')\<rparr>],
          randomizeOutputs = None,
          labels = [''quarkid'', ''did'', ''update'']\<rparr>"
    by blast
  ultimately show ?thesis
    using segments wallet(2) by simp
qed

subsection \<open>The overlay query\<close>

lemma resolveDID_reaches_overlay:
  assumes "split_colon did = [''did'', ''bsv'', tpc, serial]"
    and "db this = Some did_lookups"
    and "findOne_error env serial = None"
    and "findOne did_lookups serial = Some didLookup"
    and "lr_didDocument didLookup = None"
    and "lr_txid didLookup = Some tx" "tx \<noteq> []"
    and "lr_vout didLookup = Some vout"
    and "overlayProvider this \<noteq> []"
  shows "resolveDID_try env this did = query_overlay env this serial (tx @ ''.'' @ show_nat vout)"
  using assms by (simp add: resolveDID_try_def)

lemma fst_query_overlay:
  "fst (query_overlay env this serial outp) =
     (case fetch env (overlayProvider this @ ''/lookup'')
             \<lparr>service = ''ls_did'', q_serialNumber = serial, q_outpoint = outp\<rparr> of
        Inl e \<Rightarrow> Inl e
      | Inr response \<Rightarrow>
          if \<not> ok response then Inl (Error (''Overlay provider error: '' @ show_nat (status response)))
          else (case json_body response of
                  Inl e \<Rightarrow> Inl e
                | Inr data \<Rightarrow> fst (decode_answer env this data)))"
  by (simp add: query_overlay_def split: sum.splits prod.splits)

lemma decode_answer_null: "decode_answer env this JNull = (Inl (type_error ''null'' ''type''), this)"
  by (simp add: decode_answer_def get_property_def)

lemma decode_answer_other_type:
  assumes "data \<noteq> JNull" "\<forall>members. data = JObject members \<longrightarrow>
             map_of members ''type'' \<noteq> Some (JString ''output-list'')"
  shows "decode_answer env this data = (Inr None, this)"
  using assms by (cases data) (simp_all add: decode_answer_def get_property_def)

lemma decode_answer_no_outputs:
  assumes "map_of members ''type'' = Some (JString ''output-list'')"
    and "map_of members ''outputs'' = None \<or> map_of members ''outputs'' = Some (JArray [])"
  shows "decode_answer env this (JObject members) = (Inr None, this)"
  using assms
  by (auto simp: decode_answer_def get_property_def nonempty_def truthy_def js_length_def
      greater_than_zero_def)

lemma nonempty_array: "nonempty env (Some (JArray (item # items))) = Inr True"
  by (simp add: nonempty_def truthy_def js_length_def greater_than_zero_def)

lemma decode_answer_null_output:
  assumes "map_of members ''type'' = Some (JString ''output-list'')"
    and "map_of members ''outputs'' = Some (JArray (JNull # rest))"
  shows "decode_answer env this (JObject members) = (Inl (type_error ''null'' ''fields''), this)"
  using assms
  by (simp add: decode_answer_def get_property_def nonempty_array first_item_def)

lemma decode_answer_no_fields:
  assumes "map_of members ''type'' = Some (JString ''output-list'')"
    and "map_of members ''outputs'' = Some (JArray (JObject first_output # rest))"
    and "map_of first_output ''fields'' = None \<or> map_of first_output ''fields'' = Some (JArray [])"
  shows "decode_answer env this (JObject members) = (Inr None, this)"
  using assms
  by (auto simp: decode_answer_def get_property_def nonempty_array first_item_def nonempty_def
      truthy_def js_length_def greater_than_zero_def)

lemma decode_answer_first_field:
  assumes "map_of members ''type'' = Some (JString ''output-list'')"
    and "map_of members ''outputs'' = Some (JArray (JObject first_output # rest))"
    and "map_of first_output ''fields'' = Some (JArray (JString raw # others))"
  shows "decode_answer env this (JObject members) =
           (case json_parse env raw of
              Inl parseError \<Rightarrow>
                (Inr None,
                 console_error ''[BsvOverlayRegistry] Error parsing DID document:''
                   (Some (ErrorArg parseError)) this)
            | Inr parsed \<Rightarrow> (Inr (as_result (Some parsed)), this))"
  using assms
  by (simp add: decode_answer_def get_property_def nonempty_array first_item_def)

lemma resolveDID_of_answer:
  assumes "resolveDID_try env this did = query_overlay env this serial outp"
    and "fetch env (overlayProvider this @ ''/lookup'')
           \<lparr>service = ''ls_did'', q_serialNumber = serial, q_outpoint = outp\<rparr> = Inr response"
    and "ok response" "json_body response = Inr data"
  shows "decode_answer env this data = (Inr found, this') \<Longrightarrow>
           resolveDID env this did = (Inr found, this')"
    and "decode_answer env this data = (Inl e, this') \<Longrightarrow>
           fst (resolveDID env this did) = Inl (Error (''Failed to resolve DID: '' @ message e))"
  using assms by (simp_all add: resolveDID_def query_overlay_def)

lemma example_did_segments:
  "split_colon example_did = [''did'', ''bsv'', ''tm_did'', example_serial]"
  by (simp add: example_did_def example_serial_def)

lemma uncached_lookup:
  "db uncached_registry = Some [uncached_record]"
  "findOne [uncached_record] example_serial = Some uncached_record"
  "lr_didDocument uncached_record = None"
  "lr_txid uncached_record = Some ''aa11''"
  "lr_vout uncached_record = Some 0"
  "overlayProvider uncached_registry = ''https://overlay.example''"
  by (simp_all add: uncached_registry_def uncached_record_def findOne_def example_registry_def)

lemma show_nat_examples: "show_nat 0 = ''0''" "show_nat 503 = ''503''"
  by (simp_all add: digit_char_def)

text \<open>
  Claim C9, amended. When \<open>resolveDID\<close> reaches the overlay query, it fails with the
  provider error \<open>Overlay provider error: <status>\<close> on a response that is not \<open>ok\<close>,
  and with the thrown error when the request throws, when the body cannot be read as
  JSON, or when the answer read is so malformed that taking it apart throws: a body of
  \<open>null\<close>, or a first output of \<open>null\<close>. An answer that can be taken apart but holds no
  decodable document does not make \<open>resolveDID\<close> fail: for an answer of another type,
  without outputs or without fields it returns \<open>null\<close>, and for a first field that is
  not JSON text it prints the parse error and returns \<open>null\<close>.
\<close>

theorem resolveDID_overlay_outcomes:
  assumes parsed: "split_colon did = [''did'', ''bsv'', tpc, serial]"
    and index: "db this = Some did_lookups"
    and query: "findOne_error env serial = None"
    and entry: "findOne did_lookups serial = Some didLookup"
    and uncached: "lr_didDocument didLookup = None"
    and anchor: "lr_txid didLookup = Some tx" "tx \<noteq> []" "lr_vout didLookup = Some vout"
    and provider: "overlayProvider this \<noteq> []"
  shows "(\<forall>e. fetch env (overlayProvider this @ ''/lookup'')
                 \<lparr>service = ''ls_did'', q_serialNumber = serial,
                  q_outpoint = tx @ ''.'' @ show_nat vout\<rparr> = Inl e \<longrightarrow>
              fst (resolveDID env this did) = Inl (Error (''Failed to resolve DID: '' @ message e)))
       \<and> (\<forall>response.
              fetch env (overlayProvider this @ ''/lookup'')
                 \<lparr>service = ''ls_did'', q_serialNumber = serial,
                  q_outpoint = tx @ ''.'' @ show_nat vout\<rparr> = Inr response \<longrightarrow>
              (\<not> ok response \<longrightarrow>
                 fst (resolveDID env this did)
                   = Inl (Error (''Failed to resolve DID: Overlay provider error: ''
                                  @ show_nat (status response))))
              \<and> (\<forall>e. ok response \<and> json_body response = Inl e \<longrightarrow>
                 fst (resolveDID env this did) = Inl (Error (''Failed to resolve DID: '' @ message e)))
              \<and> (ok response \<and> json_body response = Inr JNull \<longrightarrow>
                 fst (resolveDID env this did)
                   = Inl (Error (''Failed to resolve DID: '' @ message (type_error ''null'' ''type''))))
              \<and> (\<forall>members rest.
                    ok response \<and> json_body response = Inr (JObject members)
                    \<and> map_of members ''type'' = Some (JString ''output-list'')
                    \<and> map_of members ''outputs'' = Some (JArray (JNull # rest)) \<longrightarrow>
                 fst (resolveDID env this did)
                   = Inl (Error (''Failed to resolve DID: '' @ message (type_error ''null'' ''fields''))))
              \<and> (\<forall>data.
                    ok response \<and> json_body response = Inr data \<and> data \<noteq> JNull
                    \<and> (\<forall>members. data = JObject members \<longrightarrow>
                          map_of members ''type'' \<noteq> Some (JString ''output-list'')) \<longrightarrow>
                 resolveDID env this did = (Inr None, this))
              \<and> (\<forall>members.
                    ok response \<and> json_body response = Inr (JObject members)
                    \<and> map_of members ''type'' = Some (JString ''output-list'')
                    \<and> (map_of members ''outputs'' = None
                        \<or> map_of members ''outputs'' = Some (JArray [])) \<longrightarrow>
                 resolveDID env this did = (Inr None, this))
              \<and> (\<forall>members first_output rest.
                    ok response \<and> json_body response = Inr (JObject members)
                    \<and> map_of members ''type'' = Some (JString ''output-list'')
                    \<and> map_of members ''outputs'' = Some (JArray (JObject first_output # rest))
                    \<and> (map_of first_output ''fields'' = None
                        \<or> map_of first_output ''fields'' = Some (JArray [])) \<longrightarrow>
                 resolveDID env this did = (Inr None, this))
              \<and> (\<forall>members first_output rest raw others e.
                    ok response \<and> json_body response = Inr (JObject members)
                    \<and> map_of members ''type'' = Some (JString ''output-list'')
                    \<and> map_of members ''outputs'' = Some (JArray (JObject first_output # rest))
                    \<and> map_of first_output ''fields'' = Some (JArray (JString raw # others))
                    \<and> json_parse env raw = Inl e \<longrightarrow>
                 resolveDID env this did
                   = (Inr None,
                      console_error ''[BsvOverlayRegistry] Error parsing DID document:''
                        (Some (ErrorArg e)) this)))"
proof -
  let ?q = "\<lparr>service = ''ls_did'', q_serialNumber = serial, q_outpoint = tx @ ''.'' @ show_nat vout\<rparr>"
  have t: "resolveDID_try env this did = query_overlay env this serial (tx @ ''.'' @ show_nat vout)"
    by (rule resolveDID_reaches_overlay [OF assms])
  have r: "fst (resolveDID env this did) =
     (case fst (query_overlay env this serial (tx @ ''.'' @ show_nat vout)) of
        Inl error \<Rightarrow> Inl (Error (''Failed to resolve DID: '' @ message error))
      | Inr found \<Rightarrow> Inr found)"
    by (simp only: fst_resolveDID t)
  have a: "fst (resolveDID env this did) = Inl (Error (''Failed to resolve DID: '' @ message e))"
    if "fetch env (overlayProvider this @ ''/lookup'') ?q = Inl e" for e
    using that by (simp add: r fst_query_overlay)
  have b: "fst (resolveDID env this did)
             = Inl (Error (''Failed to resolve DID: Overlay provider error: '' @ show_nat (status response)))"
    if "fetch env (overlayProvider this @ ''/lookup'') ?q = Inr response" "\<not> ok response" for response
    using that by (simp add: r fst_query_overlay del: show_nat.simps)
  have c: "fst (resolveDID env this did) = Inl (Error (''Failed to resolve DID: '' @ message e))"
    if "fetch env (overlayProvider this @ ''/lookup'') ?q = Inr response" "ok response"
      "json_body response = Inl e" for response e
    using that by (simp add: r fst_query_overlay)
  show ?thesis
  proof (intro conjI allI impI)
    fix e assume "fetch env (overlayProvider this @ ''/lookup'') ?q = Inl e"
    then show "fst (resolveDID env this did) = Inl (Error (''Failed to resolve DID: '' @ message e))"
      by (rule a)
  next
    fix response assume "fetch env (overlayProvider this @ ''/lookup'') ?q = Inr response" "\<not> ok response"
    then show "fst (resolveDID env this did)
             = Inl (Error (''Failed to resolve DID: Overlay provider error: '' @ show_nat (status response)))"
      by (rule b)
  next
    fix response e
    assume "fetch env (overlayProvider this @ ''/lookup'') ?q = Inr response"
      "ok response \<and> json_body response = Inl e"
    then show "fst (resolveDID env this did) = Inl (Error (''Failed to resolve DID: '' @ message e))"
      using c by blast
  next
    fix response
    assume f: "fetch env (overlayProvider this @ ''/lookup'') ?q = Inr response"
      and o: "ok response \<and> json_body response = Inr JNull"
    from o have "ok response" "json_body response = Inr JNull" by simp_all
    from resolveDID_of_answer(2) [OF t f this decode_answer_null]
    show "fst (resolveDID env this did)
            = Inl (Error (''Failed to resolve DID: '' @ message (type_error ''null'' ''type'')))" .
  next
    fix response members rest
    assume f: "fetch env (overlayProvider this @ ''/lookup'') ?q = Inr response"
      and o: "ok response \<and> json_body response = Inr (JObject members)
              \<and> map_of members ''type'' = Some (JString ''output-list'')
              \<and> map_of members ''outputs'' = Some (JArray (JNull # rest))"
    from o have k: "ok response" "json_body response = Inr (JObject members)" by simp_all
    from o have "decode_answer env this (JObject members) = (Inl (type_error ''null'' ''fields''), this)"
      by (intro decode_answer_null_output) simp_all
    from resolveDID_of_answer(2) [OF t f k this]
    show "fst (resolveDID env this did)
            = Inl (Error (''Failed to resolve DID: '' @ message (type_error ''null'' ''fields'')))" .
  next
    fix response data
    assume f: "fetch env (overlayProvider this @ ''/lookup'') ?q = Inr response"
      and o: "ok response \<and> json_body response = Inr data \<and> data \<noteq> JNull
              \<and> (\<forall>members. data = JObject members \<longrightarrow>
                    map_of members ''type'' \<noteq> Some (JString ''output-list''))"
    from o have k: "ok response" "json_body response = Inr data" by simp_all
    from o have "decode_answer env this data = (Inr None, this)"
      by (intro decode_answer_other_type) simp_all
    from resolveDID_of_answer(1) [OF t f k this]
    show "resolveDID env this did = (Inr None, this)" .
  next
    fix response members
    assume f: "fetch env (overlayProvider this @ ''/lookup'') ?q = Inr response"
      and o: "ok response \<and> json_body response = Inr (JObject members)
              \<and> map_of members ''type'' = Some (JString ''output-list'')
              \<and> (map_of members ''outputs'' = None \<or> map_of members ''outputs'' = Some (JArray []))"
    from o have k: "ok response" "json_body response = Inr (JObject members)" by simp_all
    from o have "decode_answer env this (JObject members) = (Inr None, this)"
      by (intro decode_answer_no_outputs) simp_all
    from resolveDID_of_answer(1) [OF t f k this]
    show "resolveDID env this did = (Inr None, this)" .
  next
    fix response members first_output rest
    assume f: "fetch env (overlayProvider this @ ''/lookup'') ?q = Inr response"
      and o: "ok response \<and> json_body response = Inr (JObject members)
              \<and> map_of members ''type'' = Some (JString ''output-list'')
              \<and> map_of members ''outputs'' = Some (JArray (JObject first_output # rest))
              \<and> (map_of first_output ''fields'' = None \<or> map_of first_output ''fields'' = Some (JArray []))"
    from o have k: "ok response" "json_body response = Inr (JObject members)" by simp_all
    from o have "decode_answer env this (JObject members) = (Inr None, this)"
      by (intro decode_answer_no_fields [of members first_output rest]) simp_all
    from resolveDID_of_answer(1) [OF t f k this]
    show "resolveDID env this did = (Inr None, this)" .
  next
    fix response members first_output rest raw others e
    assume f: "fetch env (overlayProvider this @ ''/lookup'') ?q = Inr response"
      and o: "ok response \<and> json_body response = Inr (JObject members)
              \<and> map_of members ''type'' = Some (JString ''output-list'')
              \<and> map_of members ''outputs'' = Some (JArray (JObject first_output # rest))
              \<and> map_of first_output ''fields'' = Some (JArray (JString raw # others))
              \<and> json_parse env raw = Inl e"
    from o have k: "ok response" "json_body response = Inr (JObject members)" by simp_all
    from o have "decode_answer env this (JObject members)
                   = (Inr None,
                      console_error ''[BsvOverlayRegistry] Error parsing DID document:''
                        (Some (ErrorArg e)) this)"
      using decode_answer_first_field [of members first_output rest raw others env this] by simp
    from resolveDID_of_answer(1) [OF t f k this]
    show "resolveDID env this did
            = (Inr None,
               console_error ''[BsvOverlayRegistry] Error parsing DID document:''
                 (Some (ErrorArg e)) this)" .
  qed
qed

theorem resolveDID_overlay_outcomes_witness:
  "fetch unavailable_env ''https://overlay.example/lookup'' example_query
     = Inr \<lparr>ok = False, status = 503, json_body = Inl (Error ''Unexpected end of JSON input'')\<rparr>
   \<and> fst (resolveDID unavailable_env uncached_registry example_did)
       = Inl (Error ''Failed to resolve DID: Overlay provider error: 503'')
   \<and> fetch example_registry_env ''https://overlay.example/lookup'' example_query
       = Inl (Error ''fetch failed'')
   \<and> fst (resolveDID example_registry_env uncached_registry example_did)
       = Inl (Error ''Failed to resolve DID: fetch failed'')
   \<and> fetch null_output_env ''https://overlay.example/lookup'' example_query
       = Inr \<lparr>ok = True, status = 200,
              json_body = Inr (JObject [(''type'', JString ''output-list''), (''outputs'', JArray [JNull])])\<rparr>
   \<and> fst (resolveDID null_output_env uncached_registry example_did)
       = Inl (Error (''Failed to resolve DID: '' @ message (type_error ''null'' ''fields'')))
   \<and> fetch undecodable_env ''https://overlay.example/lookup'' example_query
       = Inr \<lparr>ok = True, status = 200, json_body = Inr undecodable_answer\<rparr>
   \<and> json_parse undecodable_env ''not json'' = Inl (Error ''Unexpected token o in JSON at position 1'')
   \<and> fst (resolveDID undecodable_env uncached_registry example_did) = Inr None"
proof -
  have provider: "overlayProvider uncached_registry \<noteq> []"
    by (simp add: uncached_lookup)
  have tx: "''aa11'' \<noteq> ([] :: string)" by simp
  have query: "findOne_error unavailable_env example_serial = None"
    "findOne_error example_registry_env example_serial = None"
    "findOne_error undecodable_env example_serial = None"
    "findOne_error null_output_env example_serial = None"
    by (simp_all add: unavailable_env_def undecodable_env_def null_output_env_def example_registry_env_def)
  note unavailable = resolveDID_overlay_outcomes
                [OF example_did_segments uncached_lookup(1) query(1) uncached_lookup(2)
                    uncached_lookup(3) uncached_lookup(4) tx uncached_lookup(5) provider,
                 unfolded uncached_lookup(6) show_nat_examples(1)]
  note unreachable = resolveDID_overlay_outcomes
                [OF example_did_segments uncached_lookup(1) query(2) uncached_lookup(2)
                    uncached_lookup(3) uncached_lookup(4) tx uncached_lookup(5) provider,
                 unfolded uncached_lookup(6) show_nat_examples(1)]
  note undecodable = resolveDID_overlay_outcomes
                [OF example_did_segments uncached_lookup(1) query(3) uncached_lookup(2)
                    uncached_lookup(3) uncached_lookup(4) tx uncached_lookup(5) provider,
                 unfolded uncached_lookup(6) show_nat_examples(1)]
  note null_output = resolveDID_overlay_outcomes
                [OF example_did_segments uncached_lookup(1) query(4) uncached_lookup(2)
                    uncached_lookup(3) uncached_lookup(4) tx uncached_lookup(5) provider,
                 unfolded uncached_lookup(6) show_nat_examples(1)]
  have q: "\<lparr>service = ''ls_did'', q_serialNumber = example_serial, q_outpoint = ''aa11'' @ ''.'' @ ''0''\<rparr>
             = example_query"
    by (simp add: example_query_def)
  have u: "''https://overlay.example'' @ ''/lookup'' = ''https://overlay.example/lookup''"
    by simp
  have f1: "fetch unavailable_env ''https://overlay.example/lookup'' example_query
     = Inr \<lparr>ok = False, status = 503, json_body = Inl (Error ''Unexpected end of JSON input'')\<rparr>"
    by (simp add: unavailable_env_def)
  have f2: "fetch example_registry_env ''https://overlay.example/lookup'' example_query
       = Inl (Error ''fetch failed'')"
    by (simp add: example_registry_env_def)
  have f3: "fetch undecodable_env ''https://overlay.example/lookup'' example_query
       = Inr \<lparr>ok = True, status = 200, json_body = Inr undecodable_answer\<rparr>"
    by (simp add: undecodable_env_def)
  have f4: "fetch null_output_env ''https://overlay.example/lookup'' example_query
       = Inr \<lparr>ok = True, status = 200,
              json_body = Inr (JObject [(''type'', JString ''output-list''), (''outputs'', JArray [JNull])])\<rparr>"
    by (simp add: null_output_env_def null_output_answer_def)
  have p: "json_parse undecodable_env ''not json'' = Inl (Error ''Unexpected token o in JSON at position 1'')"
    by (simp add: undecodable_env_def)
  have r1: "fst (resolveDID unavailable_env uncached_registry example_did)
       = Inl (Error ''Failed to resolve DID: Overlay provider error: 503'')"
    using unavailable [unfolded q u, THEN conjunct2, rule_format, OF f1, THEN conjunct1]
      show_nat_examples(2) by simp
  have r2: "fst (resolveDID example_registry_env uncached_registry example_did)
       = Inl (Error ''Failed to resolve DID: fetch failed'')"
    using unreachable [unfolded q u, THEN conjunct1, rule_format, OF f2] by simp
  have r4: "fst (resolveDID null_output_env uncached_registry example_did)
       = Inl (Error (''Failed to resolve DID: '' @ message (type_error ''null'' ''fields'')))"
    by (rule null_output [unfolded q u, THEN conjunct2, rule_format, OF f4,
          THEN conjunct2, THEN conjunct2, THEN conjunct2, THEN conjunct1, rule_format,
          of "[(''type'', JString ''output-list''), (''outputs'', JArray [JNull])]" "[]"])
       simp
  have r3: "resolveDID undecodable_env uncached_registry example_did
       = (Inr None,
          console_error ''[BsvOverlayRegistry] Error parsing DID document:''
            (Some (ErrorArg (Error ''Unexpected token o in JSON at position 1''))) uncached_registry)"
    by (rule undecodable [unfolded q u, THEN conjunct2, rule_format, OF f3,
          THEN conjunct2, THEN conjunct2, THEN conjunct2, THEN conjunct2, THEN conjunct2,
          THEN conjunct2, THEN conjunct2, rule_format,
          of "[(''type'', JString ''output-list''),
               (''outputs'', JArray [JObject [(''fields'', JArray [JString ''not json''])]])]"
             "[(''fields'', JArray [JString ''not json''])]" "[]" "''not json''" "[]"])
       (simp add: undecodable_answer_def p)
  from f1 f2 f3 f4 p r1 r2 r3 r4 show ?thesis by simp
qed

text \<open>
  Claim C9 as stated fails on a payload that cannot be decoded: the answer is read, its
  first field is not JSON text, and \<open>resolveDID\<close> returns \<open>null\<close> instead of failing.
\<close>

theorem resolveDID_malformed_payload_counterexample:
  "fetch undecodable_env ''https://overlay.example/lookup'' example_query
     = Inr \<lparr>ok = True, status = 200,
            json_body =
              Inr (JObject [(''type'', JString ''output-list''),
                            (''outputs'', JArray [JObject [(''fields'', JArray [JString ''not json''])]])])\<rparr>
   \<and> json_parse undecodable_env ''not json'' = Inl (Error ''Unexpected token o in JSON at position 1'')
   \<and> resolveDID undecodable_env uncached_registry example_did
       = (Inr None,
          uncached_registry
            \<lparr>console := [ConsoleError ''[BsvOverlayRegistry] Error parsing DID document:''
                           (Some (ErrorArg (Error ''Unexpected token o in JSON at position 1'')))]\<rparr>)"
proof -
  have f: "fetch undecodable_env ''https://overlay.example/lookup'' example_query
     = Inr \<lparr>ok = True, status = 200,
            json_body =
              Inr (JObject [(''type'', JString ''output-list''),
                            (''outputs'', JArray [JObject [(''fields'', JArray [JString ''not json''])]])])\<rparr>"
    by (simp add: undecodable_env_def undecodable_answer_def)
  have p: "json_parse undecodable_env ''not json'' = Inl (Error ''Unexpected token o in JSON at position 1'')"
    by (simp add: undecodable_env_def)
  have provider: "overlayProvider uncached_registry \<noteq> []"
    by (simp add: uncached_lookup)
  have tx: "''aa11'' \<noteq> ([] :: string)" by simp
  have query: "findOne_error undecodable_env example_serial = None"
    by (simp add: undecodable_env_def example_registry_env_def)
  have t: "resolveDID_try undecodable_env uncached_registry example_did
             = query_overlay undecodable_env uncached_registry example_serial (''aa11'' @ ''.'' @ show_nat 0)"
    by (rule resolveDID_reaches_overlay
          [OF example_did_segments uncached_lookup(1) query uncached_lookup(2) uncached_lookup(3)
              uncached_lookup(4) tx uncached_lookup(5) provider])
  have d: "decode_answer undecodable_env uncached_registry
             (JObject [(''type'', JString ''output-list''),
                       (''outputs'', JArray [JObject [(''fields'', JArray [JString ''not json''])]])])
           = (Inr None,
              console_error ''[BsvOverlayRegistry] Error parsing DID document:''
                (Some (ErrorArg (Error ''Unexpected token o in JSON at position 1''))) uncached_registry)"
    using decode_answer_first_field
            [of "[(''type'', JString ''output-list''),
                  (''outputs'', JArray [JObject [(''fields'', JArray [JString ''not json''])]])]"
                "[(''fields'', JArray [JString ''not json''])]" "[]" "''not json''" "[]"
                undecodable_env uncached_registry]
    by (simp add: p)
  have c: "console uncached_registry = []"
    by (simp add: uncached_registry_def example_registry_def)
  have "query_overlay undecodable_env uncached_registry example_serial ''aa11.0''
          = (Inr None,
             uncached_registry
               \<lparr>console := [ConsoleError ''[BsvOverlayRegistry] Error parsing DID document:''
                           (Some (ErrorArg (Error ''Unexpected token o in JSON at position 1'')))]\<rparr>)"
    using f d c by (simp add: query_overlay_def uncached_lookup(6) example_query_def console_error_def)
  with t have "resolveDID undecodable_env uncached_registry example_did
       = (Inr None,
          uncached_registry
            \<lparr>console := [ConsoleError ''[BsvOverlayRegistry] Error parsing DID document:''
                           (Some (ErrorArg (Error ''Unexpected token o in JSON at position 1'')))]\<rparr>)"
    by (simp add: resolveDID_def digit_char_def)
  with f p show ?thesis by simp
qed

end
